theory Spec2Isabelle
  imports Complex_Main "HOL-Library.Word"
begin

section \<open>Numbers, vectors and colours\<close>

text \<open>
  The landing page script keeps its numbers as JavaScript Numbers. They are modelled as
  \<^typ>\<open>real\<close>: arithmetic, \<open>Math.sqrt\<close>, \<open>Math.sin\<close>, \<open>Math.cos\<close> and \<open>Math.acos\<close> are the exact
  real functions, and the single-precision storage of a \<open>Float32Array\<close> keeps the value it
  is given. Rounding, infinities and NaN are outside the model.

  \<open>THREE.Vector3\<close>, \<open>THREE.Vector2\<close> and \<open>THREE.Color\<close> are the value classes of the
  rendering library; the methods below are the ones \<open>ParticleGlobe\<close> calls, each with the
  library's arithmetic.
\<close>

datatype Vector3 = Vector3 real real real

datatype Vector2 = Vector2 real real

datatype Color = Color real real real

datatype Quaternion = Quaternion real real real real

fun add_v3 :: "Vector3 \<Rightarrow> Vector3 \<Rightarrow> Vector3" where
  "add_v3 (Vector3 a b c) (Vector3 d e f) = Vector3 (a + d) (b + e) (c + f)"

fun sub_v3 :: "Vector3 \<Rightarrow> Vector3 \<Rightarrow> Vector3" where
  "sub_v3 (Vector3 a b c) (Vector3 d e f) = Vector3 (a - d) (b - e) (c - f)"

fun multiplyScalar_v3 :: "Vector3 \<Rightarrow> real \<Rightarrow> Vector3" where
  "multiplyScalar_v3 (Vector3 a b c) k = Vector3 (a * k) (b * k) (c * k)"

definition divideScalar_v3 :: "Vector3 \<Rightarrow> real \<Rightarrow> Vector3" where
  "divideScalar_v3 v k = multiplyScalar_v3 v (1 / k)"

fun length_v3 :: "Vector3 \<Rightarrow> real" where
  "length_v3 (Vector3 a b c) = sqrt (a * a + b * b + c * c)"

definition normalize_v3 :: "Vector3 \<Rightarrow> Vector3" where
  \<comment> \<open>\<open>divideScalar(this.length() || 1)\<close>: a zero vector is divided by 1 and stays zero.\<close>
  "normalize_v3 v = divideScalar_v3 v (if length_v3 v = 0 then 1 else length_v3 v)"

fun distanceToSquared_v3 :: "Vector3 \<Rightarrow> Vector3 \<Rightarrow> real" where
  "distanceToSquared_v3 (Vector3 a b c) (Vector3 d e f) =
     (a - d) * (a - d) + (b - e) * (b - e) + (c - f) * (c - f)"

definition distanceTo_v3 :: "Vector3 \<Rightarrow> Vector3 \<Rightarrow> real" where
  "distanceTo_v3 v w = sqrt (distanceToSquared_v3 v w)"

fun lerp_v3 :: "Vector3 \<Rightarrow> Vector3 \<Rightarrow> real \<Rightarrow> Vector3" where
  "lerp_v3 (Vector3 a b c) (Vector3 d e f) alpha =
     Vector3 (a + (d - a) * alpha) (b + (e - b) * alpha) (c + (f - c) * alpha)"

fun lerp_color :: "Color \<Rightarrow> Color \<Rightarrow> real \<Rightarrow> Color" where
  "lerp_color (Color r g b) (Color r' g' b') alpha =
     Color (r + (r' - r) * alpha) (g + (g' - g) * alpha) (b + (b' - b) * alpha)"

text \<open>
  A \<open>THREE.BufferAttribute\<close> of item size 3 over a typed array: \<open>getX(i)\<close>, \<open>getY(i)\<close>,
  \<open>getZ(i)\<close> read \<open>array[3 * i]\<close>, \<open>array[3 * i + 1]\<close>, \<open>array[3 * i + 2]\<close>, and
  \<open>setXYZ\<close> writes them. A typed array ignores a write past its end, as list update does.
  A read past its end gives \<open>undefined\<close>; the arrays of the globe have room for every
  particle (\<open>globe_ok\<close> below), and what is proved about their contents is proved there.
\<close>

definition getXYZ :: "real list \<Rightarrow> nat \<Rightarrow> Vector3" where
  "getXYZ buf i = Vector3 (buf ! (i * 3)) (buf ! (i * 3 + 1)) (buf ! (i * 3 + 2))"

definition setXYZ :: "real list \<Rightarrow> nat \<Rightarrow> real \<Rightarrow> real \<Rightarrow> real \<Rightarrow> real list" where
  "setXYZ buf i a b c = buf[i * 3 := a, i * 3 + 1 := b, i * 3 + 2 := c]"

definition getRGB :: "real list \<Rightarrow> nat \<Rightarrow> Color" where
  \<comment> \<open>The same three entries read as a colour.\<close>
  "getRGB buf i = Color (buf ! (i * 3)) (buf ! (i * 3 + 1)) (buf ! (i * 3 + 2))"

fun toArray_color :: "Color \<Rightarrow> real list \<Rightarrow> nat \<Rightarrow> real list" where
  "toArray_color (Color r g b) array offset =
     array[offset := r, offset + 1 := g, offset + 2 := b]"

section \<open>The particle globe\<close>

type_synonym Matrix4 = "real list"

record PerspectiveCamera =
  fov :: real
  aspect :: real
  near :: real
  far :: real
  position :: Vector3
  quaternion :: Quaternion
  projectionMatrix :: Matrix4

text \<open>
  What the module takes from its surroundings: the rendering library, the noise library
  and the random source. None of it is part of the repository, so each is a parameter.
  \<^item> \<open>noise3D\<close>: \<open>SimplexNoise.noise3D\<close> of the instance made in \<open>init\<close>;
  \<^item> \<open>toWorld\<close>: \<open>v.applyMatrix4(this.particles.matrixWorld)\<close>;
  \<^item> \<open>toLocal\<close>: \<open>v.applyMatrix4(this.particles.matrixWorld.clone().invert())\<close>;
  \<^item> \<open>intersectObject\<close>: \<open>raycaster.setFromCamera(mouse, camera)\<close> followed by
    \<open>raycaster.intersectObject(this.intersectionSphere)\<close>, giving the hit points in order;
  \<^item> \<open>updateProjectionMatrix\<close>: the projection matrix the camera computes from its fields;
  \<^item> \<open>controls_update\<close>: what \<open>OrbitControls.update\<close> does to the camera;
  \<^item> \<open>color_of\<close>: \<open>new THREE.Color(hex)\<close>;
  \<^item> \<open>random\<close>: the draws of \<open>Math.random\<close>, numbered from the first draw of \<open>setupGlobe\<close>.
\<close>

record host =
  noise3D :: "real \<Rightarrow> real \<Rightarrow> real \<Rightarrow> real"
  toWorld :: "Vector3 \<Rightarrow> Vector3"
  toLocal :: "Vector3 \<Rightarrow> Vector3"
  intersectObject :: "Vector2 \<Rightarrow> PerspectiveCamera \<Rightarrow> Vector3 list"
  updateProjectionMatrix :: "PerspectiveCamera \<Rightarrow> Matrix4"
  controls_update :: "PerspectiveCamera \<Rightarrow> PerspectiveCamera"
  color_of :: "string \<Rightarrow> Color"
  random :: "nat \<Rightarrow> real"

text \<open>
  The fields of the \<open>ParticleGlobe\<close> object. \<open>container\<close> tells whether the container
  element was found. The typed arrays live in a store, \<open>arrays\<close>, in the order they were
  allocated, and a field that holds an array holds its index there: two fields share an
  array exactly when they hold the same index. \<open>positionAttribute\<close> and \<open>colorAttribute\<close>
  are the arrays behind \<open>particles.geometry.attributes.position\<close> and \<open>.color\<close>.
  \<open>renderer_size\<close> is the size last given to \<open>renderer.setSize\<close> and \<open>render_calls\<close>
  counts the calls of \<open>renderer.render\<close>.
\<close>

record ParticleGlobe =
  container :: bool
  isInView :: bool
  isTouchDevice :: bool
  isRendered :: bool
  clickPoint :: Vector3
  clickStrength :: real
  NOISE_FREQUENCY :: real
  NOISE_AMPLITUDE :: real
  NOISE_SPEED :: real
  baseColor :: Color
  hotColor :: Color
  camera :: PerspectiveCamera
  PARTICLE_COUNT :: nat
  PARTICLE_SIZE :: real
  GLOBE_RADIUS :: real
  MOUSE_INFLUENCE_RADIUS :: real
  MOUSE_REPEL_STRENGTH :: real
  mouse :: Vector2
  arrays :: "real list list"
  originalPositions :: nat
  animatedPositions :: nat
  positionAttribute :: nat
  colorAttribute :: nat
  renderer_size :: "(nat \<times> nat) option"
  render_calls :: nat

subsection \<open>setupGlobe\<close>

text \<open>
  One round of the loop of \<open>setupGlobe\<close>: two draws, the point on the sphere, the base
  colour. The pair is the two local arrays \<open>positions\<close> and \<open>colors\<close>.
\<close>

definition setupGlobe_particle ::
  "host \<Rightarrow> ParticleGlobe \<Rightarrow> nat \<Rightarrow> real list \<times> real list \<Rightarrow> real list \<times> real list" where
  "setupGlobe_particle h s i pc =
     (let u = random h (2 * i); v = random h (2 * i + 1);
          theta = 2 * pi * u; phi = arccos (2 * v - 1);
          x = GLOBE_RADIUS s * sin phi * cos theta;
          y = GLOBE_RADIUS s * sin phi * sin theta;
          z = GLOBE_RADIUS s * cos phi
      in ((fst pc)[i * 3 := x, i * 3 + 1 := y, i * 3 + 2 := z],
          toArray_color (baseColor s) (snd pc) (i * 3)))"

text \<open>
  The sampling formula in the words of the specification: from two uniform draws \<open>u\<close> and
  \<open>v\<close>, the azimuth \<open>2\<pi>u\<close> and the polar angle \<open>arccos (2v - 1)\<close>, and the point of the
  sphere of radius \<open>R\<close> at these angles. The loop above is compared with it.
\<close>

definition spherePoint :: "real \<Rightarrow> real \<Rightarrow> real \<Rightarrow> Vector3" where
  "spherePoint R u v =
     (let theta = 2 * pi * u; phi = arccos (2 * v - 1)
      in Vector3 (R * sin phi * cos theta) (R * sin phi * sin theta) (R * cos phi))"

text \<open>
  \<open>setupGlobe\<close> allocates four arrays: the locals \<open>positions\<close> and \<open>colors\<close>, then
  \<open>new Float32Array(positions)\<close> twice, each a fresh copy. The position attribute wraps
  \<open>this.animatedPositions\<close> and the colour attribute wraps \<open>colors\<close>, without copying.
  The renderer element, the orbit controls, the invisible sphere, the particle texture and
  the scene graph that \<open>setupGlobe\<close> also builds belong to the rendering library; the object
  reaches them only through the parameters of \<open>host\<close>.
\<close>

definition setupGlobe :: "host \<Rightarrow> ParticleGlobe \<Rightarrow> ParticleGlobe" where
  "setupGlobe h s =
     (let pc = fold (setupGlobe_particle h s) [0..<PARTICLE_COUNT s]
                 (replicate (PARTICLE_COUNT s * 3) 0, replicate (PARTICLE_COUNT s * 3) 0);
          positions = fst pc; colors = snd pc;
          n = length (arrays s)
      in s\<lparr>arrays := arrays s @ [positions, colors, positions, positions],
            originalPositions := n + 2,
            animatedPositions := n + 3,
            positionAttribute := n + 3,
            colorAttribute := n + 1\<rparr>)"

subsection \<open>onWindowResize\<close>

definition onWindowResize :: "host \<Rightarrow> nat \<times> nat \<Rightarrow> ParticleGlobe \<Rightarrow> ParticleGlobe" where
  \<comment> \<open>The pair is \<open>container.clientWidth\<close> and \<open>container.clientHeight\<close>.\<close>
  "onWindowResize h wh s =
     (if \<not> container s then s
      else let width = fst wh; height = snd wh in
        if width = 0 \<or> height = 0 then s
        else let cam = (camera s)\<lparr>aspect := real width / real height\<rparr> in
          s\<lparr>camera := cam\<lparr>projectionMatrix := updateProjectionMatrix h cam\<rparr>,
            renderer_size := Some (width, height)\<rparr>)"

subsection \<open>animate\<close>

text \<open>What a frame reads from outside: the clock and the container's measured size.\<close>

record frame =
  elapsedTime :: real
  clientWidth :: nat
  clientHeight :: nat

definition decay_clickStrength :: "real \<Rightarrow> real" where
  \<comment> \<open>The two statements of \<open>animate\<close> on \<open>this.clickStrength\<close>, before the loop.\<close>
  "decay_clickStrength c =
     (let c1 = (if c > 0 then c * 0.95 else c)
      in if c1 < 0.01 then 0 else c1)"

definition originalPos :: "ParticleGlobe \<Rightarrow> nat \<Rightarrow> Vector3" where
  "originalPos s i = getXYZ (arrays s ! originalPositions s) i"

definition noiseValue :: "host \<Rightarrow> ParticleGlobe \<Rightarrow> real \<Rightarrow> nat \<Rightarrow> real" where
  "noiseValue h s t i =
     (case originalPos s i of Vector3 ox oy oz \<Rightarrow>
        noise3D h (ox * NOISE_FREQUENCY s) (oy * NOISE_FREQUENCY s)
                  (oz * NOISE_FREQUENCY s + t * NOISE_SPEED s))"

definition shimmeringPos :: "host \<Rightarrow> ParticleGlobe \<Rightarrow> real \<Rightarrow> nat \<Rightarrow> Vector3" where
  "shimmeringPos h s t i =
     (let normal = normalize_v3 (originalPos s i);
          shimmerOffset = multiplyScalar_v3 normal (noiseValue h s t i * NOISE_AMPLITUDE s)
      in add_v3 (originalPos s i) shimmerOffset)"

definition currentColor :: "host \<Rightarrow> ParticleGlobe \<Rightarrow> real \<Rightarrow> nat \<Rightarrow> Color" where
  "currentColor h s t i =
     (let normalizedNoise = (noiseValue h s t i + 1) * 0.5
      in lerp_color (baseColor s) (hotColor s) normalizedNoise)"

text \<open>
  The hover block: \<open>Some\<close> of the vector it adds to \<open>totalDisplacement\<close> when its
  condition holds, \<open>None\<close> when the block is skipped.
\<close>

definition hoverRepel :: "ParticleGlobe \<Rightarrow> Vector3 \<Rightarrow> Vector3 \<Rightarrow> Vector3 option" where
  "hoverRepel s worldShimmeringPos mouse3D =
     (let hoverDistance = distanceTo_v3 worldShimmeringPos mouse3D in
      if hoverDistance < MOUSE_INFLUENCE_RADIUS s \<and> \<not> isTouchDevice s then
        let hoverDirection = normalize_v3 (sub_v3 worldShimmeringPos mouse3D);
            hoverRepelStrength =
              ((MOUSE_INFLUENCE_RADIUS s - hoverDistance) / MOUSE_INFLUENCE_RADIUS s)
                * MOUSE_REPEL_STRENGTH s
        in Some (multiplyScalar_v3 hoverDirection hoverRepelStrength)
      else None)"

text \<open>The click block, in the same way.\<close>

definition clickPush :: "ParticleGlobe \<Rightarrow> Vector3 \<Rightarrow> Vector3 option" where
  "clickPush s worldShimmeringPos =
     (if clickStrength s > 0 then
        let clickDistance = distanceTo_v3 worldShimmeringPos (clickPoint s);
            CLICK_INFLUENCE_RADIUS = 3 in
        if clickDistance < CLICK_INFLUENCE_RADIUS then
          let clickDirection = normalize_v3 (sub_v3 worldShimmeringPos (clickPoint s));
              clickPushStrength =
                ((CLICK_INFLUENCE_RADIUS - clickDistance) / CLICK_INFLUENCE_RADIUS)
                  * clickStrength s
          in Some (multiplyScalar_v3 clickDirection clickPushStrength)
        else None
      else None)"

definition totalDisplacement :: "ParticleGlobe \<Rightarrow> Vector3 \<Rightarrow> Vector3 \<Rightarrow> Vector3" where
  "totalDisplacement s worldShimmeringPos mouse3D =
     (let d0 = Vector3 0 0 0;
          d1 = (case hoverRepel s worldShimmeringPos mouse3D of
                  Some v \<Rightarrow> add_v3 d0 v | None \<Rightarrow> d0);
          d2 = (case clickPush s worldShimmeringPos of
                  Some v \<Rightarrow> add_v3 d1 v | None \<Rightarrow> d1)
      in d2)"

definition targetPos :: "host \<Rightarrow> ParticleGlobe \<Rightarrow> real \<Rightarrow> Vector3 \<Rightarrow> nat \<Rightarrow> Vector3" where
  "targetPos h s t mouse3D i =
     (let worldShimmeringPos = toWorld h (shimmeringPos h s t i);
          worldTargetPos =
            add_v3 worldShimmeringPos (totalDisplacement s worldShimmeringPos mouse3D)
      in toLocal h worldTargetPos)"

text \<open>
  The body of the loop of \<open>animate\<close> for particle \<open>i\<close>, on the store. It reads the
  original and the animated position first, writes the colour through the colour
  attribute, and at the end writes the new position through the position attribute. The
  other fields of the object are not touched inside the loop.
\<close>

definition animate_particle ::
  "host \<Rightarrow> ParticleGlobe \<Rightarrow> real \<Rightarrow> Vector3 \<Rightarrow> nat \<Rightarrow> real list list \<Rightarrow> real list list" where
  "animate_particle h s t mouse3D i A =
     (let s' = s\<lparr>arrays := A\<rparr>;
          animatedPos = getXYZ (A ! positionAttribute s) i;
          target = targetPos h s' t mouse3D i;
          A1 = (case currentColor h s' t i of Color r g b \<Rightarrow>
                  A[colorAttribute s := setXYZ (A ! colorAttribute s) i r g b]);
          newPos = lerp_v3 animatedPos target 0.08
      in case newPos of Vector3 a b c \<Rightarrow>
           A1[positionAttribute s := setXYZ (A1 ! positionAttribute s) i a b c])"

text \<open>
  One call of \<open>animate\<close>. It first asks for the next frame, which is why frames keep
  coming; a run of the component is a sequence of such calls (\<open>run\<close> below). The
  \<open>needsUpdate\<close> marks on the two attributes tell the renderer to upload the arrays and
  are not kept.
\<close>

definition animate :: "host \<Rightarrow> frame \<Rightarrow> ParticleGlobe \<Rightarrow> ParticleGlobe" where
  "animate h f s =
     (if \<not> isInView s then s
      else
        let s1 = (if \<not> isRendered s \<and> clientWidth f > 0
                  then (onWindowResize h (clientWidth f, clientHeight f) s)\<lparr>isRendered := True\<rparr>
                  else s);
            intersects = intersectObject h (mouse s1) (camera s1);
            mouse3D = (case intersects of [] \<Rightarrow> Vector3 0 0 0 | p # _ \<Rightarrow> p);
            s2 = s1\<lparr>clickStrength := decay_clickStrength (clickStrength s1)\<rparr>;
            A = fold (animate_particle h s2 (elapsedTime f) mouse3D) [0..<PARTICLE_COUNT s2]
                  (arrays s2)
        in s2\<lparr>arrays := A,
              camera := controls_update h (camera s2),
              render_calls := Suc (render_calls s2)\<rparr>)"

text \<open>
  Two names for what the loop of a frame reads: the object after the one-time resize and
  the decay of the click strength, and \<open>mouse3D\<close>, the hit point of the pointer ray on the
  invisible sphere, the origin when the ray misses.
\<close>

definition loop_state :: "host \<Rightarrow> frame \<Rightarrow> ParticleGlobe \<Rightarrow> ParticleGlobe" where
  "loop_state h f s =
     (let s1 = (if \<not> isRendered s \<and> clientWidth f > 0
                then (onWindowResize h (clientWidth f, clientHeight f) s)\<lparr>isRendered := True\<rparr>
                else s)
      in s1\<lparr>clickStrength := decay_clickStrength (clickStrength s1)\<rparr>)"

definition frame_mouse3D :: "host \<Rightarrow> frame \<Rightarrow> ParticleGlobe \<Rightarrow> Vector3" where
  "frame_mouse3D h f s =
     (case intersectObject h (mouse (loop_state h f s)) (camera (loop_state h f s)) of
        [] \<Rightarrow> Vector3 0 0 0
      | p # _ \<Rightarrow> p)"

text \<open>
  The shape \<open>setupGlobe\<close> gives the store and every later step keeps: the original
  positions, the position attribute and the colour attribute are three different arrays
  of the store, each with room for \<open>PARTICLE_COUNT\<close> triples.
\<close>

definition globe_ok :: "ParticleGlobe \<Rightarrow> bool" where
  "globe_ok s =
     (positionAttribute s \<noteq> colorAttribute s
      \<and> originalPositions s \<noteq> positionAttribute s
      \<and> originalPositions s \<noteq> colorAttribute s
      \<and> originalPositions s < length (arrays s)
      \<and> positionAttribute s < length (arrays s)
      \<and> colorAttribute s < length (arrays s)
      \<and> PARTICLE_COUNT s * 3 \<le> length (arrays s ! originalPositions s)
      \<and> PARTICLE_COUNT s * 3 \<le> length (arrays s ! positionAttribute s)
      \<and> PARTICLE_COUNT s * 3 \<le> length (arrays s ! colorAttribute s))"

subsection \<open>The event handlers\<close>

text \<open>\<open>container.getBoundingClientRect()\<close>, as far as the handlers read it.\<close>

record rect =
  left :: real
  top :: real
  width :: real
  height :: real

definition pointer_to_mouse :: "rect \<Rightarrow> real \<Rightarrow> real \<Rightarrow> Vector2" where
  "pointer_to_mouse r px py =
     Vector2 (((px - left r) / width r) * 2 - 1) (- ((py - top r) / height r) * 2 + 1)"

definition onMouseMove :: "rect \<Rightarrow> real \<times> real \<Rightarrow> ParticleGlobe \<Rightarrow> ParticleGlobe" where
  "onMouseMove r event s = s\<lparr>mouse := pointer_to_mouse r (fst event) (snd event)\<rparr>"

definition triggerDisperse :: "host \<Rightarrow> rect \<Rightarrow> real \<Rightarrow> real \<Rightarrow> ParticleGlobe \<Rightarrow> ParticleGlobe" where
  "triggerDisperse h r px py s =
     (let s1 = s\<lparr>mouse := pointer_to_mouse r px py\<rparr>;
          intersects = intersectObject h (mouse s1) (camera s1)
      in case intersects of
           [] \<Rightarrow> s1
         | p # _ \<Rightarrow> s1\<lparr>clickPoint := p, clickStrength := 15\<rparr>)"

definition onMouseClick :: "host \<Rightarrow> rect \<Rightarrow> real \<times> real \<Rightarrow> ParticleGlobe \<Rightarrow> ParticleGlobe" where
  "onMouseClick h r event s = triggerDisperse h r (fst event) (snd event) s"

definition onTouchStart ::
  "host \<Rightarrow> rect \<Rightarrow> (real \<times> real) list \<Rightarrow> ParticleGlobe \<Rightarrow> ParticleGlobe" where
  \<comment> \<open>The list is \<open>event.touches\<close>, each touch with its \<open>clientX\<close> and \<open>clientY\<close>.\<close>
  "onTouchStart h r touches s =
     (case touches of
        [] \<Rightarrow> s
      | touch # _ \<Rightarrow> triggerDisperse h r (fst touch) (snd touch) s)"

definition observer_callback :: "bool list \<Rightarrow> ParticleGlobe \<Rightarrow> ParticleGlobe" where
  \<comment> \<open>The callback of \<open>setupIntersectionObserver\<close>; the list is \<open>isIntersecting\<close> of each entry.\<close>
  "observer_callback entries s = fold (\<lambda>entry s'. s'\<lparr>isInView := entry\<rparr>) entries s"

subsection \<open>init\<close>

text \<open>What \<open>init\<close> reads from the page.\<close>

record window =
  container_found :: bool
  ontouchstart :: bool
  maxTouchPoints :: nat

text \<open>
  The assignments at the head of \<open>init\<close>. The array fields are unset until \<open>setupGlobe\<close>
  assigns them; the record holds 0 there, and no array is allocated yet.
\<close>

definition init_fields :: "host \<Rightarrow> window \<Rightarrow> ParticleGlobe" where
  "init_fields h w =
     (let cam = \<lparr>fov = 75, aspect = 1, near = 0.1, far = 1000,
                position = Vector3 0 0 0, quaternion = Quaternion 0 0 0 1,
                projectionMatrix = []\<rparr>
      in \<lparr>container = True,
          isInView = True,
          isTouchDevice = (ontouchstart w \<or> maxTouchPoints w > 0),
          isRendered = False,
          clickPoint = Vector3 0 0 0,
          clickStrength = 0,
          NOISE_FREQUENCY = 0.3,
          NOISE_AMPLITUDE = 0.45,
          NOISE_SPEED = 0.03,
          baseColor = color_of h ''#508AA8'',
          hotColor = color_of h ''#DE6B48'',
          camera = cam\<lparr>projectionMatrix := updateProjectionMatrix h cam,
                        position := Vector3 0 0 9\<rparr>,
          PARTICLE_COUNT = 20000,
          PARTICLE_SIZE = 0.04,
          GLOBE_RADIUS = 5,
          MOUSE_INFLUENCE_RADIUS = 2,
          MOUSE_REPEL_STRENGTH = 8,
          mouse = Vector2 (- 100) (- 100),
          arrays = [],
          originalPositions = 0,
          animatedPositions = 0,
          positionAttribute = 0,
          colorAttribute = 0,
          renderer_size = None,
          render_calls = 0\<rparr>)"

text \<open>
  \<open>init\<close> returns at once when the container is missing: no object state, no handlers.
  Otherwise it sets the fields, builds the globe and runs the first frame.
\<close>

definition init :: "host \<Rightarrow> window \<Rightarrow> frame \<Rightarrow> ParticleGlobe option" where
  "init h w f =
     (if \<not> container_found w then None
      else Some (animate h f (setupGlobe h (init_fields h w))))"

subsection \<open>The life of the component\<close>

text \<open>
  After \<open>init\<close> the object changes only in the frame callback and in the handlers that
  \<open>setupEventListeners\<close> and \<open>setupIntersectionObserver\<close> registered: resize always,
  \<open>touchstart\<close> on a touch device, \<open>mousemove\<close> and \<open>click\<close> on any other.
\<close>

datatype event =
    Frame frame
  | Resize nat nat
  | MouseMove rect real real
  | Click rect real real
  | TouchStart rect "(real \<times> real) list"
  | Intersection "bool list"

fun step :: "host \<Rightarrow> event \<Rightarrow> ParticleGlobe \<Rightarrow> ParticleGlobe" where
  "step h (Frame f) s = animate h f s"
| "step h (Resize w ht) s = onWindowResize h (w, ht) s"
| "step h (MouseMove r px py) s = (if isTouchDevice s then s else onMouseMove r (px, py) s)"
| "step h (Click r px py) s = (if isTouchDevice s then s else onMouseClick h r (px, py) s)"
| "step h (TouchStart r touches) s = (if isTouchDevice s then onTouchStart h r touches s else s)"
| "step h (Intersection entries) s = observer_callback entries s"

definition run :: "host \<Rightarrow> event list \<Rightarrow> ParticleGlobe \<Rightarrow> ParticleGlobe" where
  "run h evs s = fold (step h) evs s"

section \<open>The newsletter form\<close>

text \<open>
  A JavaScript string is a sequence of UTF-16 code units, and a regular expression
  without the \<open>u\<close> flag reads it one code unit at a time.
\<close>

type_synonym jsstring = "16 word list"

subsection \<open>Regular expressions\<close>

text \<open>
  The pattern \<open>/^[^\s@]+@[^\s@]+\.[^\s@]+$/\<close> has no flags: \<open>^\<close> holds only at index 0 and
  \<open>$\<close> only at the end of the input, so \<open>test\<close> succeeds exactly when the whole string
  matches what stands between the two anchors. That part is kept as a syntax tree and
  matched by taking derivatives, one code unit after the other.
\<close>

datatype regex =
    Zero
  | One
  | Atom "16 word \<Rightarrow> bool"
  | Alt regex regex
  | Seq regex regex
  | Star regex

definition OneOrMore :: "regex \<Rightarrow> regex" where
  "OneOrMore r = Seq r (Star r)"

fun nullable :: "regex \<Rightarrow> bool" where
  "nullable Zero = False"
| "nullable One = True"
| "nullable (Atom p) = False"
| "nullable (Alt r q) = (nullable r \<or> nullable q)"
| "nullable (Seq r q) = (nullable r \<and> nullable q)"
| "nullable (Star r) = True"

fun deriv :: "16 word \<Rightarrow> regex \<Rightarrow> regex" where
  "deriv c Zero = Zero"
| "deriv c One = Zero"
| "deriv c (Atom p) = (if p c then One else Zero)"
| "deriv c (Alt r q) = Alt (deriv c r) (deriv c q)"
| "deriv c (Seq r q) =
     (if nullable r then Alt (Seq (deriv c r) q) (deriv c q) else Seq (deriv c r) q)"
| "deriv c (Star r) = Seq (deriv c r) (Star r)"

definition test :: "regex \<Rightarrow> jsstring \<Rightarrow> bool" where
  "test r str = nullable (fold deriv str r)"

text \<open>The words a regular expression stands for, to say what \<open>test\<close> decides.\<close>

definition conc :: "jsstring set \<Rightarrow> jsstring set \<Rightarrow> jsstring set" where
  "conc K L = {u @ v | u v. u \<in> K \<and> v \<in> L}"

inductive_set star :: "jsstring set \<Rightarrow> jsstring set" for L :: "jsstring set" where
  star_empty: "[] \<in> star L"
| star_more: "u \<in> L \<Longrightarrow> v \<in> star L \<Longrightarrow> u @ v \<in> star L"

fun lang :: "regex \<Rightarrow> jsstring set" where
  "lang Zero = {}"
| "lang One = {[]}"
| "lang (Atom p) = {[c] | c. p c}"
| "lang (Alt r q) = lang r \<union> lang q"
| "lang (Seq r q) = conc (lang r) (lang q)"
| "lang (Star r) = star (lang r)"

text \<open>
  \<open>\s\<close> is the white space and the line terminators of ECMAScript: tab, line feed,
  vertical tab, form feed, carriage return, space, no-break space, U+1680,
  U+2000 to U+200A, U+2028, U+2029, U+202F, U+205F, U+3000 and U+FEFF.
\<close>

definition isWhiteSpace :: "16 word \<Rightarrow> bool" where
  "isWhiteSpace c =
     (c = 0x9 \<or> c = 0xA \<or> c = 0xB \<or> c = 0xC \<or> c = 0xD \<or> c = 0x20 \<or> c = 0xA0
      \<or> c = 0x1680 \<or> (0x2000 \<le> c \<and> c \<le> 0x200A) \<or> c = 0x2028 \<or> c = 0x2029
      \<or> c = 0x202F \<or> c = 0x205F \<or> c = 0x3000 \<or> c = 0xFEFF)"

definition notSpaceAt :: "16 word \<Rightarrow> bool" where
  \<comment> \<open>The class \<open>[^\s@]\<close>; \<open>@\<close> is code unit 0x40.\<close>
  "notSpaceAt c = (\<not> isWhiteSpace c \<and> c \<noteq> 0x40)"

definition emailRegex :: regex where
  \<comment> \<open>\<open>[^\s@]+ @ [^\s@]+ \. [^\s@]+\<close>; the full stop is code unit 0x2E.\<close>
  "emailRegex =
     Seq (OneOrMore (Atom notSpaceAt))
       (Seq (Atom (\<lambda>c. c = 0x40))
         (Seq (OneOrMore (Atom notSpaceAt))
           (Seq (Atom (\<lambda>c. c = 0x2E))
             (OneOrMore (Atom notSpaceAt)))))"

definition isValidEmail :: "jsstring \<Rightarrow> bool" where
  "isValidEmail email = test emailRegex email"

subsection \<open>handleNewsletterSubmission\<close>

text \<open>
  What the handler reads and writes on the page. \<open>emailInput\<close> is the value of the
  form's email input, \<open>None\<close> when the form has no such input. \<open>errorElement\<close> is the text
  and the class name of the element \<open>#newsletter-error\<close>, \<open>None\<close> when the page has none.
  \<open>notifications\<close> are the toasts \<open>showMessage\<close> has put up, each with its message and its
  type, the newest last. \<open>resets\<close> counts the calls of \<open>form.reset()\<close>.
\<close>

record newsletter =
  emailInput :: "jsstring option"
  errorElement :: "(string \<times> string) option"
  aria_invalid :: bool
  focused :: bool
  notifications :: "(string \<times> string) list"
  resets :: nat

definition showMessage :: "string \<Rightarrow> string \<Rightarrow> newsletter \<Rightarrow> newsletter" where
  "showMessage message type n = n\<lparr>notifications := notifications n @ [(message, type)]\<rparr>"

definition showFormError :: "string \<Rightarrow> newsletter \<Rightarrow> newsletter" where
  "showFormError message n =
     (let n1 = (if errorElement n \<noteq> None
                then n\<lparr>errorElement := Some (message, ''form-error'')\<rparr> else n);
          n2 = (if emailInput n1 \<noteq> None
                then n1\<lparr>aria_invalid := True, focused := True\<rparr> else n1)
      in showMessage message ''error'' n2)"

definition clearError :: "newsletter \<Rightarrow> newsletter" where
  \<comment> \<open>The block that empties the error element; the handler runs it first and, on success, last.\<close>
  "clearError n =
     (if errorElement n \<noteq> None then n\<lparr>errorElement := Some ([], ''sr-only'')\<rparr> else n)"

definition handleNewsletterSubmission :: "newsletter \<Rightarrow> newsletter" where
  "handleNewsletterSubmission n =
     (let email = emailInput n;
          n1 = clearError n
      in case email of
           None \<Rightarrow> showFormError ''Please enter an email address.'' n1
         | Some str \<Rightarrow>
             if str = [] then showFormError ''Please enter an email address.'' n1
             else if \<not> isValidEmail str
               then showFormError ''Please enter a valid email address.'' n1
             else clearError ((showMessage ''Thank you for subscribing!'' ''success'' n1)
                                \<lparr>resets := Suc (resets n1)\<rparr>))"

section \<open>A small globe for worked examples\<close>

text \<open>
  Surroundings in which everything can be computed by hand: the noise is 1 everywhere,
  the particle cloud sits untransformed in the world, the ray cast returns the given
  list of hit points, a colour is read from its hex digits, and the random source repeats
  eight draws that put four particles on the equator of the globe.
\<close>

definition example_host :: "Vector3 list \<Rightarrow> host" where
  "example_host hits =
     \<lparr>noise3D = (\<lambda>a b c. 1),
      toWorld = (\<lambda>v. v),
      toLocal = (\<lambda>v. v),
      intersectObject = (\<lambda>m cam. hits),
      updateProjectionMatrix = (\<lambda>cam. [aspect cam]),
      controls_update = (\<lambda>cam. cam),
      color_of = (\<lambda>hex. if hex = ''#508AA8'' then Color (80 / 255) (138 / 255) (168 / 255)
                         else Color (222 / 255) (107 / 255) (72 / 255)),
      random = (\<lambda>k. [0, 1 / 2, 1 / 4, 1 / 2, 1 / 2, 1 / 2, 3 / 4, 1 / 2] ! (k mod 8))\<rparr>"

definition quiet_host :: "Vector3 list \<Rightarrow> host" where
  \<comment> \<open>The same surroundings with the noise 0 everywhere.\<close>
  "quiet_host hits = (example_host hits)\<lparr>noise3D := (\<lambda>a b c. 0)\<rparr>"

definition example_window :: window where
  "example_window = \<lparr>container_found = True, ontouchstart = False, maxTouchPoints = 0\<rparr>"

definition example_frame :: frame where
  "example_frame = \<lparr>elapsedTime = 0, clientWidth = 800, clientHeight = 600\<rparr>"

definition example_rect :: rect where
  "example_rect = \<lparr>left = 0, top = 0, width = 800, height = 600\<rparr>"

definition example_globe :: "Vector3 list \<Rightarrow> ParticleGlobe" where
  \<comment> \<open>The globe of \<open>init\<close> with four particles instead of 20000, before its first frame.\<close>
  "example_globe hits =
     setupGlobe (example_host hits)
       ((init_fields (example_host hits) example_window)\<lparr>PARTICLE_COUNT := 4\<rparr>)"

section \<open>Properties of the vector operations\<close>

lemma add_v3_zero: "add_v3 v (Vector3 0 0 0) = v"
  by (cases v) simp

lemma zero_add_v3: "add_v3 (Vector3 0 0 0) v = v"
  by (cases v) simp

lemma length_v3_nonneg: "0 \<le> length_v3 v"
  by (cases v) simp

lemma length_v3_zero_iff: "length_v3 v = 0 \<longleftrightarrow> v = Vector3 0 0 0"
proof (cases v)
  case (Vector3 a b c)
  have "a * a + b * b + c * c = 0 \<longleftrightarrow> a = 0 \<and> b = 0 \<and> c = 0"
    by (simp add: add_nonneg_eq_0_iff)
  with Vector3 show ?thesis by simp
qed

lemma length_v3_multiplyScalar: "length_v3 (multiplyScalar_v3 v k) = \<bar>k\<bar> * length_v3 v"
proof (cases v)
  case (Vector3 a b c)
  have "a * k * (a * k) + b * k * (b * k) + c * k * (c * k) = k\<^sup>2 * (a * a + b * b + c * c)"
    by (simp add: power2_eq_square algebra_simps)
  with Vector3 show ?thesis by (simp add: real_sqrt_mult)
qed

lemma length_v3_normalize:
  assumes "v \<noteq> Vector3 0 0 0"
  shows "length_v3 (normalize_v3 v) = 1"
proof -
  have "length_v3 v \<noteq> 0" using assms by (simp add: length_v3_zero_iff)
  moreover have "0 \<le> length_v3 v" by (rule length_v3_nonneg)
  ultimately show ?thesis
    by (simp add: normalize_v3_def divideScalar_v3_def length_v3_multiplyScalar)
qed

lemma normalize_v3_zero: "normalize_v3 (Vector3 0 0 0) = Vector3 0 0 0"
  by (simp add: normalize_v3_def divideScalar_v3_def)

lemma normalize_v3_scaled:
  "v \<noteq> Vector3 0 0 0 \<Longrightarrow> normalize_v3 v = multiplyScalar_v3 v (1 / length_v3 v)"
  by (simp add: normalize_v3_def divideScalar_v3_def length_v3_zero_iff)

lemma normalize_v3_axis: "0 < a \<Longrightarrow> normalize_v3 (Vector3 a 0 0) = Vector3 1 0 0"
  by (simp add: normalize_v3_def divideScalar_v3_def)

lemma length_v3_sub: "length_v3 (sub_v3 p m) = distanceTo_v3 p m"
  by (cases p; cases m) (simp add: distanceTo_v3_def)

lemma sub_v3_zero_iff: "sub_v3 p m = Vector3 0 0 0 \<longleftrightarrow> p = m"
  by (cases p; cases m) simp

lemma distanceTo_v3_zero_iff: "distanceTo_v3 p m = 0 \<longleftrightarrow> p = m"
  using length_v3_zero_iff [of "sub_v3 p m"] by (simp add: length_v3_sub sub_v3_zero_iff)

lemma distanceTo_v3_nonneg: "0 \<le> distanceTo_v3 p m"
  using length_v3_nonneg [of "sub_v3 p m"] by (simp add: length_v3_sub)

lemma distanceTo_v3_axis: "distanceTo_v3 (Vector3 a 0 0) (Vector3 b 0 0) = \<bar>a - b\<bar>"
  by (simp add: distanceTo_v3_def)

lemma multiplyScalar_v3_assoc:
  "multiplyScalar_v3 (multiplyScalar_v3 v j) k = multiplyScalar_v3 v (j * k)"
  by (cases v) (simp add: mult.assoc)

section \<open>Properties of the attribute arrays\<close>

lemma length_setXYZ: "length (setXYZ buf i a b c) = length buf"
  by (simp add: setXYZ_def)

lemma getXYZ_setXYZ_same:
  "i * 3 + 2 < length buf \<Longrightarrow> getXYZ (setXYZ buf i a b c) i = Vector3 a b c"
  by (simp add: getXYZ_def setXYZ_def)

lemma getXYZ_setXYZ_other:
  assumes "j \<noteq> i"
  shows "getXYZ (setXYZ buf i a b c) j = getXYZ buf j"
proof -
  have "j * 3 \<noteq> i * 3" "j * 3 \<noteq> i * 3 + 1" "j * 3 \<noteq> i * 3 + 2"
    "j * 3 + 1 \<noteq> i * 3" "j * 3 + 1 \<noteq> i * 3 + 1" "j * 3 + 1 \<noteq> i * 3 + 2"
    "j * 3 + 2 \<noteq> i * 3" "j * 3 + 2 \<noteq> i * 3 + 1" "j * 3 + 2 \<noteq> i * 3 + 2"
    using assms by presburger+
  then show ?thesis by (simp add: getXYZ_def setXYZ_def)
qed

lemma getRGB_setXYZ_same:
  "i * 3 + 2 < length buf \<Longrightarrow> getRGB (setXYZ buf i a b c) i = Color a b c"
  by (simp add: getRGB_def setXYZ_def)

lemma getRGB_setXYZ_other:
  assumes "j \<noteq> i"
  shows "getRGB (setXYZ buf i a b c) j = getRGB buf j"
  using getXYZ_setXYZ_other [OF assms, of buf a b c] by (simp add: getXYZ_def getRGB_def)

section \<open>Properties of the impulse decay\<close>

lemma decay_nonneg: "0 \<le> decay_clickStrength c"
  by (simp add: decay_clickStrength_def Let_def)

lemma decay_le: "0 \<le> c \<Longrightarrow> decay_clickStrength c \<le> c"
  by (simp add: decay_clickStrength_def Let_def)

lemma decay_zero: "decay_clickStrength 0 = 0"
  by (simp add: decay_clickStrength_def)

lemma decay_pos:
  "0 < c \<Longrightarrow> decay_clickStrength c = (if c * (19 / 20) < 1 / 100 then 0 else c * (19 / 20))"
  by (simp add: decay_clickStrength_def Let_def)

lemma bound_142: "(1 / 100 :: real) \<le> 15 * (19 / 20) ^ 142"
  by (simp add: power_divide)

lemma bound_143: "15 * (19 / 20) ^ 143 < (1 / 100 :: real)"
  by (simp add: power_divide)

text \<open>
  Neither comparison with the threshold 0.01 is a near miss: the value of frame 142 lies
  three percent above it and the value of frame 143 two percent below.
\<close>

lemma bounds_clear:
  "(103 / 10000 :: real) \<le> 15 * (19 / 20) ^ 142" "15 * (19 / 20) ^ 143 \<le> (98 / 10000 :: real)"
  by (simp_all add: power_divide)

text \<open>The strength \<open>n\<close> frames after a click: a geometric sequence cut off at frame 143.\<close>

lemma decay_power:
  "(decay_clickStrength ^^ n) 15 = (if n < 143 then 15 * (19 / 20) ^ n else 0)"
proof (induction n)
  case 0
  show ?case by simp
next
  case (Suc n)
  have step: "(decay_clickStrength ^^ Suc n) 15 = decay_clickStrength ((decay_clickStrength ^^ n) 15)"
    by simp
  consider "n < 142" | "n = 142" | "143 \<le> n" by linarith
  then show ?case
  proof cases
    case 1
    have "(19 / 20 :: real) ^ 142 \<le> (19 / 20) ^ Suc n"
      using 1 by (intro power_decreasing) simp_all
    then have big: "\<not> 15 * (19 / 20) ^ n * (19 / 20) < (1 / 100 :: real)"
      using bound_142 by simp
    have "(decay_clickStrength ^^ n) 15 = 15 * (19 / 20) ^ n" using 1 Suc by simp
    then have "(decay_clickStrength ^^ Suc n) 15 = decay_clickStrength (15 * (19 / 20) ^ n)"
      using step by simp
    also have "\<dots> = 15 * (19 / 20) ^ n * (19 / 20)"
      using big by (subst decay_pos) simp_all
    finally show ?thesis using 1 by simp
  next
    case 2
    have small: "15 * (19 / 20) ^ 142 * (19 / 20) < (1 / 100 :: real)"
      by (simp add: power_divide)
    have "(decay_clickStrength ^^ n) 15 = 15 * (19 / 20) ^ 142" using 2 Suc by simp
    then have "(decay_clickStrength ^^ Suc n) 15 = decay_clickStrength (15 * (19 / 20) ^ 142)"
      using step by simp
    also have "\<dots> = 0"
      using small by (subst decay_pos) simp_all
    finally show ?thesis using 2 by simp
  next
    case 3
    then have "(decay_clickStrength ^^ n) 15 = 0" using Suc by simp
    then show ?thesis using 3 step by (simp add: decay_zero)
  qed
qed

text \<open>The bound of the specification, \<open>\<lceil>ln (0.01 / 15) / ln 0.95\<rceil>\<close>, is 143.\<close>

lemma frames_ceiling: "\<lceil>ln (0.01 / 15) / ln (0.95 :: real)\<rceil> = 143"
proof -
  let ?b = "19 / 20 :: real" and ?a = "1 / 1500 :: real"
  have lb: "ln ?b < 0" by simp
  have 1: "?b ^ 143 < ?a" using bound_143 by simp
  have 2: "?a < ?b ^ 142" by (simp add: power_divide)
  have "ln (?b ^ 143) < ln ?a" using 1 by (subst ln_less_cancel_iff) simp_all
  then have 3: "143 * ln ?b < ln ?a" by (simp add: ln_realpow)
  have "ln ?a < ln (?b ^ 142)" using 2 by (subst ln_less_cancel_iff) simp_all
  then have 4: "ln ?a < 142 * ln ?b" by (simp add: ln_realpow)
  have 5: "ln ?a / ln ?b < 143" using 3 lb by (simp add: pos_divide_less_eq neg_divide_less_eq)
  have 6: "142 < ln ?a / ln ?b" using 4 lb by (simp add: neg_less_divide_eq)
  have "\<lceil>ln ?a / ln ?b\<rceil> = 143" using 5 6 by (simp add: ceiling_eq_iff)
  then show ?thesis by simp
qed

section \<open>Properties of the geometry initializer\<close>

lemma setupGlobe_particle_eq:
  assumes "spherePoint (GLOBE_RADIUS s) (random h (2 * i)) (random h (2 * i + 1)) = Vector3 a b c"
    and "baseColor s = Color r g bl"
  shows "setupGlobe_particle h s i pc = (setXYZ (fst pc) i a b c, setXYZ (snd pc) i r g bl)"
  using assms by (simp add: setupGlobe_particle_def spherePoint_def Let_def setXYZ_def)

lemma setupGlobe_loop:
  "n \<le> N \<Longrightarrow>
     length (fst (fold (setupGlobe_particle h s) [0..<n] (replicate (N * 3) 0, replicate (N * 3) 0))) = N * 3
     \<and> length (snd (fold (setupGlobe_particle h s) [0..<n] (replicate (N * 3) 0, replicate (N * 3) 0))) = N * 3
     \<and> (\<forall>i<n. getXYZ (fst (fold (setupGlobe_particle h s) [0..<n] (replicate (N * 3) 0, replicate (N * 3) 0))) i
                  = spherePoint (GLOBE_RADIUS s) (random h (2 * i)) (random h (2 * i + 1))
              \<and> getRGB (snd (fold (setupGlobe_particle h s) [0..<n] (replicate (N * 3) 0, replicate (N * 3) 0))) i
                  = baseColor s)"
proof (induction n)
  case 0
  show ?case by simp
next
  case (Suc n)
  let ?pc = "fold (setupGlobe_particle h s) [0..<n] (replicate (N * 3) 0, replicate (N * 3) 0)"
  let ?pt = "\<lambda>i. spherePoint (GLOBE_RADIUS s) (random h (2 * i)) (random h (2 * i + 1))"
  have IH: "length (fst ?pc) = N * 3" "length (snd ?pc) = N * 3"
    "\<And>i. i < n \<Longrightarrow> getXYZ (fst ?pc) i = ?pt i"
    "\<And>i. i < n \<Longrightarrow> getRGB (snd ?pc) i = baseColor s"
    using Suc by simp_all
  have n: "n * 3 + 2 < length (fst ?pc)" "n * 3 + 2 < length (snd ?pc)"
    using Suc.prems IH(1,2) by simp_all
  obtain a b c where abc: "?pt n = Vector3 a b c" by (cases "?pt n")
  obtain r g bl where col: "baseColor s = Color r g bl" by (cases "baseColor s")
  have "fold (setupGlobe_particle h s) [0..<Suc n] (replicate (N * 3) 0, replicate (N * 3) 0)
      = setupGlobe_particle h s n ?pc"
    by simp
  then have step: "fold (setupGlobe_particle h s) [0..<Suc n] (replicate (N * 3) 0, replicate (N * 3) 0)
      = (setXYZ (fst ?pc) n a b c, setXYZ (snd ?pc) n r g bl)"
    using setupGlobe_particle_eq [OF abc col] by simp
  have "getXYZ (setXYZ (fst ?pc) n a b c) i = ?pt i" if "i < Suc n" for i
  proof (cases "i = n")
    case True
    then show ?thesis using n(1) abc by (simp add: getXYZ_setXYZ_same)
  next
    case False
    then have "i < n" using that by simp
    then show ?thesis using False IH(3) by (simp add: getXYZ_setXYZ_other)
  qed
  moreover have "getRGB (setXYZ (snd ?pc) n r g bl) i = baseColor s" if "i < Suc n" for i
  proof (cases "i = n")
    case True
    then show ?thesis using n(2) col by (simp add: getRGB_setXYZ_same)
  next
    case False
    then have "i < n" using that by simp
    then show ?thesis using False IH(4) by (simp add: getRGB_setXYZ_other)
  qed
  ultimately show ?case
    unfolding step using IH(1,2) by (simp add: length_setXYZ)
qed

lemma spherePoint_on_sphere: "length_v3 (spherePoint R u v) = \<bar>R\<bar>"
proof -
  have "(R * sin p * cos t) * (R * sin p * cos t) + (R * sin p * sin t) * (R * sin p * sin t)
          + (R * cos p) * (R * cos p) = R\<^sup>2" for p t :: real
  proof -
    have "(R * sin p * cos t) * (R * sin p * cos t) + (R * sin p * sin t) * (R * sin p * sin t)
          + (R * cos p) * (R * cos p)
        = R\<^sup>2 * ((sin p)\<^sup>2 * ((cos t)\<^sup>2 + (sin t)\<^sup>2) + (cos p)\<^sup>2)"
      by algebra
    then show ?thesis by simp
  qed
  then show ?thesis by (simp add: spherePoint_def Let_def)
qed

lemma setupGlobe_fields:
  "isInView (setupGlobe h s) = isInView s"
  "isTouchDevice (setupGlobe h s) = isTouchDevice s"
  "clickStrength (setupGlobe h s) = clickStrength s"
  "clickPoint (setupGlobe h s) = clickPoint s"
  "camera (setupGlobe h s) = camera s"
  "container (setupGlobe h s) = container s"
  "PARTICLE_COUNT (setupGlobe h s) = PARTICLE_COUNT s"
  "MOUSE_INFLUENCE_RADIUS (setupGlobe h s) = MOUSE_INFLUENCE_RADIUS s"
  "MOUSE_REPEL_STRENGTH (setupGlobe h s) = MOUSE_REPEL_STRENGTH s"
  "NOISE_AMPLITUDE (setupGlobe h s) = NOISE_AMPLITUDE s"
  "NOISE_FREQUENCY (setupGlobe h s) = NOISE_FREQUENCY s"
  "NOISE_SPEED (setupGlobe h s) = NOISE_SPEED s"
  "render_calls (setupGlobe h s) = render_calls s"
  "renderer_size (setupGlobe h s) = renderer_size s"
  by (simp_all add: setupGlobe_def Let_def)

lemma setupGlobe_refs:
  "originalPositions (setupGlobe h s) = length (arrays s) + 2"
  "positionAttribute (setupGlobe h s) = length (arrays s) + 3"
  "animatedPositions (setupGlobe h s) = length (arrays s) + 3"
  "colorAttribute (setupGlobe h s) = length (arrays s) + 1"
  by (simp_all add: setupGlobe_def Let_def)

lemma setupGlobe_arrays:
  assumes "i < PARTICLE_COUNT s"
  shows "getXYZ (arrays (setupGlobe h s) ! originalPositions (setupGlobe h s)) i
           = spherePoint (GLOBE_RADIUS s) (random h (2 * i)) (random h (2 * i + 1))"
    and "getXYZ (arrays (setupGlobe h s) ! positionAttribute (setupGlobe h s)) i
           = spherePoint (GLOBE_RADIUS s) (random h (2 * i)) (random h (2 * i + 1))"
    and "getRGB (arrays (setupGlobe h s) ! colorAttribute (setupGlobe h s)) i = baseColor s"
proof -
  let ?pc = "fold (setupGlobe_particle h s) [0..<PARTICLE_COUNT s]
               (replicate (PARTICLE_COUNT s * 3) 0, replicate (PARTICLE_COUNT s * 3) 0)"
  have loop: "getXYZ (fst ?pc) i = spherePoint (GLOBE_RADIUS s) (random h (2 * i)) (random h (2 * i + 1))"
    "getRGB (snd ?pc) i = baseColor s"
    using setupGlobe_loop [of "PARTICLE_COUNT s" "PARTICLE_COUNT s" h s] assms(1) by simp_all
  have orig: "arrays (setupGlobe h s) ! originalPositions (setupGlobe h s) = fst ?pc"
    by (simp add: setupGlobe_def Let_def nth_append)
  have pos: "arrays (setupGlobe h s) ! positionAttribute (setupGlobe h s) = fst ?pc"
    by (simp add: setupGlobe_def Let_def nth_append)
  have col: "arrays (setupGlobe h s) ! colorAttribute (setupGlobe h s) = snd ?pc"
    by (simp add: setupGlobe_def Let_def nth_append)
  show "getXYZ (arrays (setupGlobe h s) ! originalPositions (setupGlobe h s)) i
           = spherePoint (GLOBE_RADIUS s) (random h (2 * i)) (random h (2 * i + 1))"
    using loop(1) by (simp only: orig)
  show "getXYZ (arrays (setupGlobe h s) ! positionAttribute (setupGlobe h s)) i
           = spherePoint (GLOBE_RADIUS s) (random h (2 * i)) (random h (2 * i + 1))"
    using loop(1) by (simp only: pos)
  show "getRGB (arrays (setupGlobe h s) ! colorAttribute (setupGlobe h s)) i = baseColor s"
    using loop(2) by (simp only: col)
qed

lemma setupGlobe_ok: "globe_ok (setupGlobe h s)"
proof -
  let ?N = "PARTICLE_COUNT s"
  have "length (fst (fold (setupGlobe_particle h s) [0..<?N] (replicate (?N * 3) 0, replicate (?N * 3) 0))) = ?N * 3"
    "length (snd (fold (setupGlobe_particle h s) [0..<?N] (replicate (?N * 3) 0, replicate (?N * 3) 0))) = ?N * 3"
    using setupGlobe_loop [of ?N ?N h s] by simp_all
  then show ?thesis
    by (simp add: globe_ok_def setupGlobe_def Let_def nth_append)
qed

section \<open>Properties of the frame loop and the handlers\<close>

lemma animate_particle_length: "length (animate_particle h s t m i A) = length A"
  by (simp add: animate_particle_def Let_def split: Vector3.split Color.split)

lemma animate_particle_other:
  "r \<noteq> positionAttribute s \<Longrightarrow> r \<noteq> colorAttribute s \<Longrightarrow>
     animate_particle h s t m i A ! r = A ! r"
  by (simp add: animate_particle_def Let_def split: Vector3.split Color.split)

lemma animate_loop_other:
  "r \<noteq> positionAttribute s \<Longrightarrow> r \<noteq> colorAttribute s \<Longrightarrow>
     fold (animate_particle h s t m) is A ! r = A ! r"
  by (induction "is" arbitrary: A) (simp_all add: animate_particle_other)

lemma animate_loop_length: "length (fold (animate_particle h s t m) is A) = length A"
  by (induction "is" arbitrary: A) (simp_all add: animate_particle_length)

lemma onWindowResize_fields:
  "clickStrength (onWindowResize h wh s) = clickStrength s"
  "clickPoint (onWindowResize h wh s) = clickPoint s"
  "isInView (onWindowResize h wh s) = isInView s"
  "isTouchDevice (onWindowResize h wh s) = isTouchDevice s"
  "arrays (onWindowResize h wh s) = arrays s"
  "originalPositions (onWindowResize h wh s) = originalPositions s"
  "positionAttribute (onWindowResize h wh s) = positionAttribute s"
  "colorAttribute (onWindowResize h wh s) = colorAttribute s"
  "PARTICLE_COUNT (onWindowResize h wh s) = PARTICLE_COUNT s"
  by (simp_all add: onWindowResize_def Let_def)

lemma animate_fields:
  "isInView (animate h f s) = isInView s"
  "isTouchDevice (animate h f s) = isTouchDevice s"
  "originalPositions (animate h f s) = originalPositions s"
  "positionAttribute (animate h f s) = positionAttribute s"
  "colorAttribute (animate h f s) = colorAttribute s"
  "PARTICLE_COUNT (animate h f s) = PARTICLE_COUNT s"
  by (simp_all add: animate_def Let_def onWindowResize_fields)

lemma animate_clickStrength:
  "clickStrength (animate h f s) =
     (if isInView s then decay_clickStrength (clickStrength s) else clickStrength s)"
  by (simp add: animate_def Let_def onWindowResize_fields)

lemma animate_array_other:
  "r \<noteq> positionAttribute s \<Longrightarrow> r \<noteq> colorAttribute s \<Longrightarrow>
     arrays (animate h f s) ! r = arrays s ! r"
  by (simp add: animate_def Let_def onWindowResize_fields animate_loop_other)

lemma triggerDisperse_fields:
  "isInView (triggerDisperse h r px py s) = isInView s"
  "isTouchDevice (triggerDisperse h r px py s) = isTouchDevice s"
  "arrays (triggerDisperse h r px py s) = arrays s"
  "originalPositions (triggerDisperse h r px py s) = originalPositions s"
  "positionAttribute (triggerDisperse h r px py s) = positionAttribute s"
  "colorAttribute (triggerDisperse h r px py s) = colorAttribute s"
  "camera (triggerDisperse h r px py s) = camera s"
  "PARTICLE_COUNT (triggerDisperse h r px py s) = PARTICLE_COUNT s"
  by (simp_all add: triggerDisperse_def Let_def split: list.split)

lemma triggerDisperse_clickStrength:
  "clickStrength (triggerDisperse h r px py s) =
     (case intersectObject h (pointer_to_mouse r px py) (camera s) of
        [] \<Rightarrow> clickStrength s | p # ps \<Rightarrow> 15)"
  by (simp add: triggerDisperse_def Let_def split: list.split)

lemma triggerDisperse_clickPoint:
  "clickPoint (triggerDisperse h r px py s) =
     (case intersectObject h (pointer_to_mouse r px py) (camera s) of
        [] \<Rightarrow> clickPoint s | p # ps \<Rightarrow> p)"
  by (simp add: triggerDisperse_def Let_def split: list.split)

lemma observer_callback_fields:
  "clickStrength (observer_callback es s) = clickStrength s"
  "isTouchDevice (observer_callback es s) = isTouchDevice s"
  "arrays (observer_callback es s) = arrays s"
  "originalPositions (observer_callback es s) = originalPositions s"
  "positionAttribute (observer_callback es s) = positionAttribute s"
  "colorAttribute (observer_callback es s) = colorAttribute s"
  "PARTICLE_COUNT (observer_callback es s) = PARTICLE_COUNT s"
  unfolding observer_callback_def by (induction es arbitrary: s) simp_all

lemma step_refs:
  "originalPositions (step h ev s) = originalPositions s"
  "positionAttribute (step h ev s) = positionAttribute s"
  "colorAttribute (step h ev s) = colorAttribute s"
  by (cases ev; simp add: animate_fields onWindowResize_fields onMouseMove_def onMouseClick_def
        onTouchStart_def triggerDisperse_fields observer_callback_fields split: list.split)+

lemma step_array_other:
  "r \<noteq> positionAttribute s \<Longrightarrow> r \<noteq> colorAttribute s \<Longrightarrow>
     arrays (step h ev s) ! r = arrays s ! r"
  by (cases ev)
     (simp_all add: animate_array_other onWindowResize_fields onMouseMove_def onMouseClick_def
        onTouchStart_def triggerDisperse_fields observer_callback_fields split: list.split)

lemma run_refs:
  "originalPositions (run h evs s) = originalPositions s
   \<and> positionAttribute (run h evs s) = positionAttribute s
   \<and> colorAttribute (run h evs s) = colorAttribute s"
  unfolding run_def by (induction evs arbitrary: s) (simp_all add: step_refs)

lemma run_array_other:
  "r \<noteq> positionAttribute s \<Longrightarrow> r \<noteq> colorAttribute s \<Longrightarrow>
     arrays (run h evs s) ! r = arrays s ! r"
  unfolding run_def
  by (induction evs arbitrary: s) (simp_all add: step_refs step_array_other)

lemma step_nonneg: "0 \<le> clickStrength s \<Longrightarrow> 0 \<le> clickStrength (step h ev s)"
  by (cases ev)
     (simp_all add: animate_clickStrength decay_nonneg onWindowResize_fields onMouseMove_def
        onMouseClick_def onTouchStart_def triggerDisperse_clickStrength
        observer_callback_fields split: list.split)

lemma run_nonneg: "0 \<le> clickStrength s \<Longrightarrow> 0 \<le> clickStrength (run h evs s)"
  unfolding run_def by (induction evs arbitrary: s) (simp_all add: step_nonneg)

lemma run_frames_clickStrength:
  "isInView s \<Longrightarrow>
     clickStrength (run h (map Frame fs) s) = (decay_clickStrength ^^ length fs) (clickStrength s)"
proof (induction fs arbitrary: s)
  case Nil
  show ?case by (simp add: run_def)
next
  case (Cons f fs)
  have "run h (map Frame (f # fs)) s = run h (map Frame fs) (animate h f s)"
    by (simp add: run_def)
  moreover have "isInView (animate h f s)" using Cons.prems by (simp add: animate_fields)
  ultimately show ?case
    using Cons.IH [of "animate h f s"] Cons.prems
    by (simp add: animate_clickStrength funpow_swap1)
qed

lemma init_Some:
  "init h w f = Some s \<longleftrightarrow> container_found w \<and> s = animate h f (setupGlobe h (init_fields h w))"
  by (auto simp add: init_def)

lemma init_fields_values:
  "clickStrength (init_fields h w) = 0"
  "isInView (init_fields h w)"
  "arrays (init_fields h w) = []"
  by (simp_all add: init_fields_def Let_def)

text \<open>
  Inside the loop of \<open>animate\<close> the noise, the colour and the target of a particle depend on
  the store only through the array of original positions.
\<close>

lemma hoverRepel_arrays: "hoverRepel (s\<lparr>arrays := A\<rparr>) p m = hoverRepel s p m"
  by (simp add: hoverRepel_def Let_def)

lemma clickPush_arrays: "clickPush (s\<lparr>arrays := A\<rparr>) p = clickPush s p"
  by (simp add: clickPush_def Let_def)

lemma totalDisplacement_arrays:
  "totalDisplacement (s\<lparr>arrays := A\<rparr>) p m = totalDisplacement s p m"
  by (simp add: totalDisplacement_def hoverRepel_arrays clickPush_arrays)

lemma noiseValue_cong:
  assumes "A ! originalPositions s = B ! originalPositions s"
  shows "noiseValue h (s\<lparr>arrays := A\<rparr>) t i = noiseValue h (s\<lparr>arrays := B\<rparr>) t i"
  using assms by (simp add: noiseValue_def originalPos_def split: Vector3.split)

lemma particle_values_cong:
  assumes "A ! originalPositions s = B ! originalPositions s"
  shows "targetPos h (s\<lparr>arrays := A\<rparr>) t m i = targetPos h (s\<lparr>arrays := B\<rparr>) t m i"
    and "currentColor h (s\<lparr>arrays := A\<rparr>) t i = currentColor h (s\<lparr>arrays := B\<rparr>) t i"
    and "shimmeringPos h (s\<lparr>arrays := A\<rparr>) t i = shimmeringPos h (s\<lparr>arrays := B\<rparr>) t i"
proof -
  note nv = noiseValue_cong [OF assms, of h t i]
  show sh: "shimmeringPos h (s\<lparr>arrays := A\<rparr>) t i = shimmeringPos h (s\<lparr>arrays := B\<rparr>) t i"
    using assms by (simp add: shimmeringPos_def originalPos_def nv Let_def)
  show "currentColor h (s\<lparr>arrays := A\<rparr>) t i = currentColor h (s\<lparr>arrays := B\<rparr>) t i"
    by (simp add: currentColor_def nv Let_def)
  show "targetPos h (s\<lparr>arrays := A\<rparr>) t m i = targetPos h (s\<lparr>arrays := B\<rparr>) t m i"
    by (simp add: targetPos_def sh totalDisplacement_arrays Let_def)
qed

lemma animate_particle_arrays:
  assumes "positionAttribute s \<noteq> colorAttribute s"
    and "positionAttribute s < length A" and "colorAttribute s < length A"
    and "lerp_v3 (getXYZ (A ! positionAttribute s) i) (targetPos h (s\<lparr>arrays := A\<rparr>) t m i) 0.08
           = Vector3 a b c"
    and "currentColor h (s\<lparr>arrays := A\<rparr>) t i = Color r g bl"
  shows "animate_particle h s t m i A ! positionAttribute s = setXYZ (A ! positionAttribute s) i a b c"
    and "animate_particle h s t m i A ! colorAttribute s = setXYZ (A ! colorAttribute s) i r g bl"
  using assms by (simp_all add: animate_particle_def Let_def)

lemma animate_loop_result:
  assumes "positionAttribute s \<noteq> colorAttribute s"
    and "originalPositions s \<noteq> positionAttribute s"
    and "originalPositions s \<noteq> colorAttribute s"
    and "positionAttribute s < length A0" and "colorAttribute s < length A0"
    and "N * 3 \<le> length (A0 ! positionAttribute s)" and "N * 3 \<le> length (A0 ! colorAttribute s)"
  shows "n \<le> N \<Longrightarrow>
     length (fold (animate_particle h s t m) [0..<n] A0 ! positionAttribute s)
       = length (A0 ! positionAttribute s)
     \<and> length (fold (animate_particle h s t m) [0..<n] A0 ! colorAttribute s)
       = length (A0 ! colorAttribute s)
     \<and> (\<forall>i<n. getXYZ (fold (animate_particle h s t m) [0..<n] A0 ! positionAttribute s) i
            = lerp_v3 (getXYZ (A0 ! positionAttribute s) i)
                (targetPos h (s\<lparr>arrays := A0\<rparr>) t m i) 0.08
          \<and> getRGB (fold (animate_particle h s t m) [0..<n] A0 ! colorAttribute s) i
            = currentColor h (s\<lparr>arrays := A0\<rparr>) t i)
     \<and> (\<forall>i\<ge>n. getXYZ (fold (animate_particle h s t m) [0..<n] A0 ! positionAttribute s) i
            = getXYZ (A0 ! positionAttribute s) i)"
proof (induction n)
  case 0
  show ?case by simp
next
  case (Suc n)
  let ?A = "fold (animate_particle h s t m) [0..<n] A0"
  let ?po = "positionAttribute s" and ?co = "colorAttribute s"
  have IH: "length (?A ! ?po) = length (A0 ! ?po)" "length (?A ! ?co) = length (A0 ! ?co)"
    "\<And>i. i < n \<Longrightarrow> getXYZ (?A ! ?po) i
        = lerp_v3 (getXYZ (A0 ! ?po) i) (targetPos h (s\<lparr>arrays := A0\<rparr>) t m i) 0.08"
    "\<And>i. i < n \<Longrightarrow> getRGB (?A ! ?co) i = currentColor h (s\<lparr>arrays := A0\<rparr>) t i"
    "\<And>i. n \<le> i \<Longrightarrow> getXYZ (?A ! ?po) i = getXYZ (A0 ! ?po) i"
    using Suc by simp_all
  have len: "?po < length ?A" "?co < length ?A"
    using assms(4,5) by (simp_all add: animate_loop_length)
  have orig: "?A ! originalPositions s = A0 ! originalPositions s"
    using assms(2,3) by (rule animate_loop_other)
  have n: "n * 3 + 2 < length (?A ! ?po)" "n * 3 + 2 < length (?A ! ?co)"
    using Suc.prems assms(6,7) IH(1,2) by simp_all
  obtain a b c where abc:
    "lerp_v3 (getXYZ (?A ! ?po) n) (targetPos h (s\<lparr>arrays := ?A\<rparr>) t m n) 0.08 = Vector3 a b c"
    by (cases "lerp_v3 (getXYZ (?A ! ?po) n) (targetPos h (s\<lparr>arrays := ?A\<rparr>) t m n) 0.08")
  obtain r g bl where col: "currentColor h (s\<lparr>arrays := ?A\<rparr>) t n = Color r g bl"
    by (cases "currentColor h (s\<lparr>arrays := ?A\<rparr>) t n")
  have abc': "lerp_v3 (getXYZ (A0 ! ?po) n) (targetPos h (s\<lparr>arrays := A0\<rparr>) t m n) 0.08 = Vector3 a b c"
    using abc IH(5) [of n] particle_values_cong(1) [OF orig, of h t m n] by simp
  have col': "currentColor h (s\<lparr>arrays := A0\<rparr>) t n = Color r g bl"
    using col particle_values_cong(2) [OF orig, of h t n] by simp
  have step: "fold (animate_particle h s t m) [0..<Suc n] A0 = animate_particle h s t m n ?A"
    by simp
  have P: "fold (animate_particle h s t m) [0..<Suc n] A0 ! ?po = setXYZ (?A ! ?po) n a b c"
    unfolding step using animate_particle_arrays(1) [OF assms(1) len abc col] .
  have C: "fold (animate_particle h s t m) [0..<Suc n] A0 ! ?co = setXYZ (?A ! ?co) n r g bl"
    unfolding step using animate_particle_arrays(2) [OF assms(1) len abc col] .
  have 1: "getXYZ (setXYZ (?A ! ?po) n a b c) i
      = lerp_v3 (getXYZ (A0 ! ?po) i) (targetPos h (s\<lparr>arrays := A0\<rparr>) t m i) 0.08"
    if "i < Suc n" for i
  proof (cases "i = n")
    case True
    then show ?thesis using n(1) abc' by (simp add: getXYZ_setXYZ_same)
  next
    case False
    then have "i < n" using that by simp
    then show ?thesis using False IH(3) by (simp add: getXYZ_setXYZ_other)
  qed
  have 2: "getRGB (setXYZ (?A ! ?co) n r g bl) i = currentColor h (s\<lparr>arrays := A0\<rparr>) t i"
    if "i < Suc n" for i
  proof (cases "i = n")
    case True
    then show ?thesis using n(2) col' by (simp add: getRGB_setXYZ_same)
  next
    case False
    then have "i < n" using that by simp
    then show ?thesis using False IH(4) by (simp add: getRGB_setXYZ_other)
  qed
  have 3: "getXYZ (setXYZ (?A ! ?po) n a b c) i = getXYZ (A0 ! ?po) i" if "Suc n \<le> i" for i
    using that IH(5) [of i] by (simp add: getXYZ_setXYZ_other)
  show ?case
    unfolding P C using 1 2 3 IH(1,2) by (simp add: length_setXYZ)
qed

lemma animate_visible:
  assumes "isInView s"
  shows "animate h f s =
     (loop_state h f s)
       \<lparr>arrays := fold (animate_particle h (loop_state h f s) (elapsedTime f) (frame_mouse3D h f s))
                    [0..<PARTICLE_COUNT (loop_state h f s)] (arrays (loop_state h f s)),
        camera := controls_update h (camera (loop_state h f s)),
        render_calls := Suc (render_calls (loop_state h f s))\<rparr>"
  using assms by (simp add: animate_def loop_state_def frame_mouse3D_def Let_def)

lemma loop_state_fields:
  "arrays (loop_state h f s) = arrays s"
  "originalPositions (loop_state h f s) = originalPositions s"
  "positionAttribute (loop_state h f s) = positionAttribute s"
  "colorAttribute (loop_state h f s) = colorAttribute s"
  "PARTICLE_COUNT (loop_state h f s) = PARTICLE_COUNT s"
  "isTouchDevice (loop_state h f s) = isTouchDevice s"
  "clickStrength (loop_state h f s) = decay_clickStrength (clickStrength s)"
  "clickPoint (loop_state h f s) = clickPoint s"
  "NOISE_AMPLITUDE (loop_state h f s) = NOISE_AMPLITUDE s"
  "NOISE_FREQUENCY (loop_state h f s) = NOISE_FREQUENCY s"
  "NOISE_SPEED (loop_state h f s) = NOISE_SPEED s"
  "MOUSE_INFLUENCE_RADIUS (loop_state h f s) = MOUSE_INFLUENCE_RADIUS s"
  "MOUSE_REPEL_STRENGTH (loop_state h f s) = MOUSE_REPEL_STRENGTH s"
  "mouse (loop_state h f s) = mouse s"
  by (simp_all add: loop_state_def onWindowResize_def Let_def)

lemma loop_state_arrays_self: "(loop_state h f s)\<lparr>arrays := arrays s\<rparr> = loop_state h f s"
  using loop_state_fields(1) [of h f s] by (metis ParticleGlobe.surjective ParticleGlobe.update_convs(19))

text \<open>What one visible frame leaves in the two arrays it writes, particle by particle.\<close>

lemma animate_particle_result:
  assumes "globe_ok s" and "isInView s" and "i < PARTICLE_COUNT s"
  shows "getXYZ (arrays (animate h f s) ! positionAttribute s) i
           = lerp_v3 (getXYZ (arrays s ! positionAttribute s) i)
               (targetPos h (loop_state h f s) (elapsedTime f) (frame_mouse3D h f s) i) 0.08
       \<and> getRGB (arrays (animate h f s) ! colorAttribute s) i
           = currentColor h (loop_state h f s) (elapsedTime f) i"
proof -
  let ?s2 = "loop_state h f s"
  have ok: "positionAttribute ?s2 \<noteq> colorAttribute ?s2"
    "originalPositions ?s2 \<noteq> positionAttribute ?s2"
    "originalPositions ?s2 \<noteq> colorAttribute ?s2"
    "positionAttribute ?s2 < length (arrays s)" "colorAttribute ?s2 < length (arrays s)"
    "PARTICLE_COUNT s * 3 \<le> length (arrays s ! positionAttribute ?s2)"
    "PARTICLE_COUNT s * 3 \<le> length (arrays s ! colorAttribute ?s2)"
    using assms(1) by (simp_all add: globe_ok_def loop_state_fields)
  note res = animate_loop_result [OF ok, of "PARTICLE_COUNT s" h "elapsedTime f" "frame_mouse3D h f s"]
  have A: "arrays (animate h f s)
      = fold (animate_particle h ?s2 (elapsedTime f) (frame_mouse3D h f s)) [0..<PARTICLE_COUNT s] (arrays s)"
    using assms(2) by (simp add: animate_visible loop_state_fields)
  have self: "?s2\<lparr>arrays := arrays s\<rparr> = ?s2" by (rule loop_state_arrays_self)
  show ?thesis
    using res assms(3) unfolding A self by (simp add: loop_state_fields)
qed

lemma animate_ok:
  assumes "globe_ok s"
  shows "globe_ok (animate h f s)"
proof (cases "isInView s")
  case False
  then show ?thesis using assms by (simp add: animate_def)
next
  case True
  let ?s2 = "loop_state h f s"
  let ?A = "fold (animate_particle h ?s2 (elapsedTime f) (frame_mouse3D h f s))
              [0..<PARTICLE_COUNT s] (arrays s)"
  have ok: "positionAttribute ?s2 \<noteq> colorAttribute ?s2"
    "originalPositions ?s2 \<noteq> positionAttribute ?s2"
    "originalPositions ?s2 \<noteq> colorAttribute ?s2"
    "positionAttribute ?s2 < length (arrays s)" "colorAttribute ?s2 < length (arrays s)"
    "PARTICLE_COUNT s * 3 \<le> length (arrays s ! positionAttribute ?s2)"
    "PARTICLE_COUNT s * 3 \<le> length (arrays s ! colorAttribute ?s2)"
    using assms by (simp_all add: globe_ok_def loop_state_fields)
  have A: "arrays (animate h f s) = ?A"
    using True by (simp add: animate_visible loop_state_fields)
  have len: "length ?A = length (arrays s)" by (rule animate_loop_length)
  have orig: "?A ! originalPositions s = arrays s ! originalPositions s"
    using animate_loop_other [of "originalPositions s" ?s2] ok(2,3)
    by (simp add: loop_state_fields)
  have "length (?A ! positionAttribute s) = length (arrays s ! positionAttribute s)"
    "length (?A ! colorAttribute s) = length (arrays s ! colorAttribute s)"
    using animate_loop_result [OF ok, of "PARTICLE_COUNT s" h "elapsedTime f" "frame_mouse3D h f s"]
    by (simp_all add: loop_state_fields)
  then show ?thesis
    using assms unfolding globe_ok_def A animate_fields by (simp add: len orig)
qed

lemma step_ok: "globe_ok s \<Longrightarrow> globe_ok (step h ev s)"
proof (cases ev)
  case (Frame f)
  assume "globe_ok s"
  then show ?thesis using Frame by (simp add: animate_ok)
qed (simp_all add: globe_ok_def onWindowResize_fields onMouseMove_def onMouseClick_def
       onTouchStart_def triggerDisperse_fields observer_callback_fields split: list.split)

lemma run_ok: "globe_ok s \<Longrightarrow> globe_ok (run h evs s)"
  unfolding run_def by (induction evs arbitrary: s) (simp_all add: step_ok)

lemma hoverRepel_None_iff:
  "hoverRepel s p m = None \<longleftrightarrow>
     (isTouchDevice s \<or> \<not> distanceTo_v3 p m < MOUSE_INFLUENCE_RADIUS s)"
  by (auto simp add: hoverRepel_def Let_def)

lemma hoverRepel_Some:
  assumes "hoverRepel s p m = Some v"
  shows "v = multiplyScalar_v3 (normalize_v3 (sub_v3 p m))
               (((MOUSE_INFLUENCE_RADIUS s - distanceTo_v3 p m) / MOUSE_INFLUENCE_RADIUS s)
                  * MOUSE_REPEL_STRENGTH s)"
    and "distanceTo_v3 p m < MOUSE_INFLUENCE_RADIUS s" and "\<not> isTouchDevice s"
  using assms by (simp_all add: hoverRepel_def Let_def split: if_splits)

lemma clickPush_zero: "clickStrength s = 0 \<Longrightarrow> clickPush s p = None"
  by (simp add: clickPush_def)

text \<open>
  With no click impulse and no hover influence nothing is added to the shimmering
  position, whatever state the loop reads.
\<close>

lemma targetPos_idle:
  assumes "\<forall>p. toLocal h (toWorld h p) = p"
    and "clickStrength s = 0"
    and "isTouchDevice s \<or> \<not> distanceTo_v3 (toWorld h (shimmeringPos h s t i)) mouse3D
           < MOUSE_INFLUENCE_RADIUS s"
  shows "targetPos h s t mouse3D i = shimmeringPos h s t i"
proof -
  have "hoverRepel s (toWorld h (shimmeringPos h s t i)) mouse3D = None"
    using assms(3) by (simp add: hoverRepel_None_iff)
  moreover have "clickPush s (toWorld h (shimmeringPos h s t i)) = None"
    using assms(2) by (rule clickPush_zero)
  ultimately have "totalDisplacement s (toWorld h (shimmeringPos h s t i)) mouse3D = Vector3 0 0 0"
    by (simp add: totalDisplacement_def)
  then have "targetPos h s t mouse3D i = toLocal h (toWorld h (shimmeringPos h s t i))"
    by (simp add: targetPos_def Let_def add_v3_zero)
  then show ?thesis using assms(1) by simp
qed

lemma loop_state_values:
  "originalPos (loop_state h f s) i = originalPos s i"
  "noiseValue h (loop_state h f s) t i = noiseValue h s t i"
  by (simp_all add: originalPos_def noiseValue_def loop_state_fields split: Vector3.split)

text \<open>
  The hover block for any two points, with the radius and the strength \<open>init\<close> assigns.
\<close>

lemma hoverRepel_linear:
  assumes "MOUSE_INFLUENCE_RADIUS s = 2" and "MOUSE_REPEL_STRENGTH s = 8"
  shows "(hoverRepel s p m \<noteq> None \<longleftrightarrow> \<not> isTouchDevice s \<and> distanceTo_v3 p m < 2)
     \<and> (\<forall>v. hoverRepel s p m = Some v \<and> p \<noteq> m \<longrightarrow>
            length_v3 v = ((2 - distanceTo_v3 p m) / 2) * 8
            \<and> (\<exists>k>0. v = multiplyScalar_v3 (sub_v3 p m) k))
     \<and> (\<forall>v. hoverRepel s p m = Some v \<and> p = m \<longrightarrow> v = Vector3 0 0 0)"
proof -
  have iff: "hoverRepel s p m \<noteq> None \<longleftrightarrow> \<not> isTouchDevice s \<and> distanceTo_v3 p m < 2"
    using assms(1) by (auto simp add: hoverRepel_None_iff)
  have away: "length_v3 v = ((2 - distanceTo_v3 p m) / 2) * 8
            \<and> (\<exists>k>0. v = multiplyScalar_v3 (sub_v3 p m) k)"
    if v: "hoverRepel s p m = Some v" and ne: "p \<noteq> m" for v
  proof -
    let ?d = "distanceTo_v3 p m"
    let ?k = "((2 - ?d) / 2) * 8"
    have d: "0 < ?d" using ne distanceTo_v3_zero_iff [of p m] distanceTo_v3_nonneg [of p m] by simp
    have lt: "?d < 2" using hoverRepel_Some(2) [OF v] assms(1) by simp
    have k: "0 < ?k" using lt by simp
    have nz: "sub_v3 p m \<noteq> Vector3 0 0 0" using ne by (simp add: sub_v3_zero_iff)
    have val: "v = multiplyScalar_v3 (normalize_v3 (sub_v3 p m)) ?k"
      using hoverRepel_Some(1) [OF v] assms by simp
    have "length_v3 v = \<bar>?k\<bar> * length_v3 (normalize_v3 (sub_v3 p m))"
      unfolding val by (rule length_v3_multiplyScalar)
    then have len: "length_v3 v = ?k"
      using k length_v3_normalize [OF nz] by simp
    have "v = multiplyScalar_v3 (sub_v3 p m) (1 / ?d * ?k)"
      unfolding val normalize_v3_scaled [OF nz] length_v3_sub
      by (rule multiplyScalar_v3_assoc)
    moreover have "0 < 1 / ?d * ?k" using d k by simp
    ultimately show ?thesis using len by blast
  qed
  have same: "v = Vector3 0 0 0" if v: "hoverRepel s p m = Some v" and eq: "p = m" for v
  proof -
    have "sub_v3 p m = Vector3 0 0 0" using eq by (simp add: sub_v3_zero_iff)
    then show ?thesis using hoverRepel_Some(1) [OF v] by (simp add: normalize_v3_zero)
  qed
  show ?thesis using iff away same by blast
qed

text \<open>
  The total displacement of a particle is the sum of what the hover block and the click
  block add, each counted as zero when it is skipped.
\<close>

lemma totalDisplacement_sum:
  "totalDisplacement s p m
     = add_v3 (case hoverRepel s p m of None \<Rightarrow> Vector3 0 0 0 | Some v \<Rightarrow> v)
              (case clickPush s p of None \<Rightarrow> Vector3 0 0 0 | Some v \<Rightarrow> v)"
  by (simp add: totalDisplacement_def zero_add_v3 add_v3_zero split: option.split)

text \<open>
  The radius, the strength, the particle count and the kind of device are assigned in
  \<open>init\<close> and by nothing else.
\<close>

lemma observer_callback_consts:
  "MOUSE_INFLUENCE_RADIUS (observer_callback es s) = MOUSE_INFLUENCE_RADIUS s"
  "MOUSE_REPEL_STRENGTH (observer_callback es s) = MOUSE_REPEL_STRENGTH s"
  unfolding observer_callback_def by (induction es arbitrary: s) simp_all

lemma animate_consts:
  "MOUSE_INFLUENCE_RADIUS (animate h f s) = MOUSE_INFLUENCE_RADIUS s"
  "MOUSE_REPEL_STRENGTH (animate h f s) = MOUSE_REPEL_STRENGTH s"
  by (simp_all add: animate_def Let_def onWindowResize_def)

lemma step_consts:
  "MOUSE_INFLUENCE_RADIUS (step h ev s) = MOUSE_INFLUENCE_RADIUS s"
  "MOUSE_REPEL_STRENGTH (step h ev s) = MOUSE_REPEL_STRENGTH s"
  "isTouchDevice (step h ev s) = isTouchDevice s"
  "PARTICLE_COUNT (step h ev s) = PARTICLE_COUNT s"
  by (cases ev; simp add: animate_consts animate_fields onWindowResize_def Let_def onMouseMove_def
        onMouseClick_def onTouchStart_def triggerDisperse_def observer_callback_consts
        observer_callback_fields split: list.split)+

lemma run_consts:
  "MOUSE_INFLUENCE_RADIUS (run h evs s) = MOUSE_INFLUENCE_RADIUS s
   \<and> MOUSE_REPEL_STRENGTH (run h evs s) = MOUSE_REPEL_STRENGTH s
   \<and> isTouchDevice (run h evs s) = isTouchDevice s
   \<and> PARTICLE_COUNT (run h evs s) = PARTICLE_COUNT s"
  unfolding run_def by (induction evs arbitrary: s) (simp_all add: step_consts)

lemma init_consts:
  assumes "init h w f = Some s"
  shows "MOUSE_INFLUENCE_RADIUS s = 2" and "MOUSE_REPEL_STRENGTH s = 8"
    and "PARTICLE_COUNT s = 20000" and "globe_ok s"
proof -
  let ?g = "setupGlobe h (init_fields h w)"
  have s: "s = animate h f ?g" using assms by (simp add: init_Some)
  show "MOUSE_INFLUENCE_RADIUS s = 2" "MOUSE_REPEL_STRENGTH s = 8" "PARTICLE_COUNT s = 20000"
    unfolding s
    by (simp_all add: animate_consts animate_fields setupGlobe_fields init_fields_def Let_def)
  show "globe_ok s" unfolding s by (intro animate_ok setupGlobe_ok)
qed

section \<open>Properties of the regular expression matcher\<close>

lemma nullable_lang: "nullable r \<longleftrightarrow> [] \<in> lang r"
  by (induction r) (auto simp: conc_def intro: star.intros)

lemma star_cons_iff:
  "c # w \<in> star L \<longleftrightarrow> (\<exists>u v. w = u @ v \<and> c # u \<in> L \<and> v \<in> star L)"
proof
  assume "c # w \<in> star L"
  then show "\<exists>u v. w = u @ v \<and> c # u \<in> L \<and> v \<in> star L"
  proof (induction "c # w" arbitrary: w rule: star.induct)
    case (star_more u v)
    show ?case
    proof (cases u)
      case Nil
      with star_more show ?thesis by simp
    next
      case (Cons a u')
      with star_more show ?thesis by auto
    qed
  qed
next
  assume "\<exists>u v. w = u @ v \<and> c # u \<in> L \<and> v \<in> star L"
  then obtain u v where "w = u @ v" "c # u \<in> L" "v \<in> star L" by blast
  then show "c # w \<in> star L" using star.star_more [of "c # u" L v] by simp
qed

text \<open>A derivative stands for the words that are left after the code unit is read.\<close>

lemma deriv_lang: "w \<in> lang (deriv c r) \<longleftrightarrow> c # w \<in> lang r"
proof (induction r arbitrary: w)
  case (Seq r q)
  show ?case
  proof
    assume "w \<in> lang (deriv c (Seq r q))"
    then consider u v where "w = u @ v" "u \<in> lang (deriv c r)" "v \<in> lang q"
      | "nullable r" "w \<in> lang (deriv c q)"
      by (auto simp: conc_def split: if_splits)
    then show "c # w \<in> lang (Seq r q)"
    proof cases
      case 1
      then have "c # u \<in> lang r" using Seq.IH(1) by simp
      with 1 show ?thesis by (auto simp: conc_def intro: exI [of _ "c # u"])
    next
      case 2
      then have "[] \<in> lang r" "c # w \<in> lang q" using Seq.IH(2) nullable_lang by auto
      then show ?thesis by (auto simp: conc_def intro: exI [of _ "[]"])
    qed
  next
    assume "c # w \<in> lang (Seq r q)"
    then obtain u v where uv: "c # w = u @ v" "u \<in> lang r" "v \<in> lang q"
      by (auto simp: conc_def)
    show "w \<in> lang (deriv c (Seq r q))"
    proof (cases u)
      case Nil
      with uv have "nullable r" "w \<in> lang (deriv c q)"
        using Seq.IH(2) nullable_lang by auto
      then show ?thesis by simp
    next
      case (Cons a u')
      with uv have "u' \<in> lang (deriv c r)" "w = u' @ v" using Seq.IH(1) by auto
      with uv show ?thesis by (auto simp: conc_def)
    qed
  qed
next
  case (Star r)
  show ?case using Star.IH by (auto simp: star_cons_iff conc_def)
qed (auto simp: conc_def)

lemma test_lang: "test r str \<longleftrightarrow> str \<in> lang r"
  unfolding test_def
  by (induction str arbitrary: r) (simp_all add: nullable_lang deriv_lang)

lemma star_Atom: "w \<in> star (lang (Atom p)) \<longleftrightarrow> list_all p w"
proof
  assume "w \<in> star (lang (Atom p))"
  then show "list_all p w" by (induction rule: star.induct) auto
next
  assume "list_all p w"
  then show "w \<in> star (lang (Atom p))"
  proof (induction w)
    case Nil
    show ?case by (rule star_empty)
  next
    case (Cons c w)
    then have "[c] \<in> lang (Atom p)" "w \<in> star (lang (Atom p))" by simp_all
    then have "[c] @ w \<in> star (lang (Atom p))" by (rule star_more)
    then show ?case by simp
  qed
qed

lemma lang_OneOrMore_Atom: "w \<in> lang (OneOrMore (Atom p)) \<longleftrightarrow> w \<noteq> [] \<and> list_all p w"
proof -
  have "w \<in> lang (OneOrMore (Atom p))
      \<longleftrightarrow> (\<exists>u v. w = u @ v \<and> u \<in> lang (Atom p) \<and> v \<in> star (lang (Atom p)))"
    by (simp only: OneOrMore_def lang.simps(5,6) conc_def) blast
  also have "\<dots> \<longleftrightarrow> (\<exists>c v. w = c # v \<and> p c \<and> list_all p v)"
  proof
    assume "\<exists>u v. w = u @ v \<and> u \<in> lang (Atom p) \<and> v \<in> star (lang (Atom p))"
    then show "\<exists>c v. w = c # v \<and> p c \<and> list_all p v"
      unfolding star_Atom by auto
  next
    assume "\<exists>c v. w = c # v \<and> p c \<and> list_all p v"
    then obtain c v where "w = [c] @ v" "[c] \<in> lang (Atom p)" "list_all p v" by auto
    then show "\<exists>u v. w = u @ v \<and> u \<in> lang (Atom p) \<and> v \<in> star (lang (Atom p))"
      unfolding star_Atom by blast
  qed
  also have "\<dots> \<longleftrightarrow> w \<noteq> [] \<and> list_all p w" by (cases w) auto
  finally show ?thesis .
qed

text \<open>
  The strings the pattern accepts: a local part, \<open>@\<close>, a domain part, a full stop and a
  last part, each non-empty and free of white space and of \<open>@\<close>.
\<close>

lemma lang_emailRegex:
  "str \<in> lang emailRegex \<longleftrightarrow>
     (\<exists>a b c. str = a @ [0x40] @ b @ [0x2E] @ c
        \<and> a \<noteq> [] \<and> b \<noteq> [] \<and> c \<noteq> []
        \<and> list_all notSpaceAt a \<and> list_all notSpaceAt b \<and> list_all notSpaceAt c)"
proof -
  let ?P = "lang (OneOrMore (Atom notSpaceAt))"
  have "str \<in> lang emailRegex \<longleftrightarrow>
      (\<exists>a b c. str = a @ [0x40] @ b @ [0x2E] @ c \<and> a \<in> ?P \<and> b \<in> ?P \<and> c \<in> ?P)"
    unfolding emailRegex_def by (simp add: conc_def) blast
  then show ?thesis unfolding lang_OneOrMore_Atom by blast
qed

section \<open>Properties of the newsletter handler\<close>

lemma handle_cases:
  "emailInput n = None \<Longrightarrow>
     handleNewsletterSubmission n = showFormError ''Please enter an email address.'' (clearError n)"
  "emailInput n = Some [] \<Longrightarrow>
     handleNewsletterSubmission n = showFormError ''Please enter an email address.'' (clearError n)"
  "emailInput n = Some str \<Longrightarrow> str \<noteq> [] \<Longrightarrow> \<not> isValidEmail str \<Longrightarrow>
     handleNewsletterSubmission n = showFormError ''Please enter a valid email address.'' (clearError n)"
  "emailInput n = Some str \<Longrightarrow> str \<noteq> [] \<Longrightarrow> isValidEmail str \<Longrightarrow>
     handleNewsletterSubmission n
       = clearError ((showMessage ''Thank you for subscribing!'' ''success'' (clearError n))
                       \<lparr>resets := Suc (resets (clearError n))\<rparr>)"
  by (simp_all add: handleNewsletterSubmission_def Let_def)

lemma clearError_fields:
  "notifications (clearError n) = notifications n" "resets (clearError n) = resets n"
  "emailInput (clearError n) = emailInput n"
  by (simp_all add: clearError_def)

lemma showFormError_fields:
  "notifications (showFormError msg n) = notifications n @ [(msg, ''error'')]"
  "resets (showFormError msg n) = resets n"
  by (simp_all add: showFormError_def showMessage_def Let_def)

lemma handle_result:
  "notifications (handleNewsletterSubmission n)
     = notifications n @
         [case emailInput n of
            None \<Rightarrow> (''Please enter an email address.'', ''error'')
          | Some str \<Rightarrow>
              if str = [] then (''Please enter an email address.'', ''error'')
              else if str \<in> lang emailRegex then (''Thank you for subscribing!'', ''success'')
              else (''Please enter a valid email address.'', ''error'')]"
  "resets (handleNewsletterSubmission n)
     = (case emailInput n of
          None \<Rightarrow> resets n
        | Some str \<Rightarrow> if str \<noteq> [] \<and> str \<in> lang emailRegex then Suc (resets n) else resets n)"
proof -
  have v: "isValidEmail w \<longleftrightarrow> w \<in> lang emailRegex" for w
    by (simp add: isValidEmail_def test_lang)
  have "notifications (handleNewsletterSubmission n)
     = notifications n @
         [case emailInput n of
            None \<Rightarrow> (''Please enter an email address.'', ''error'')
          | Some str \<Rightarrow>
              if str = [] then (''Please enter an email address.'', ''error'')
              else if str \<in> lang emailRegex then (''Thank you for subscribing!'', ''success'')
              else (''Please enter a valid email address.'', ''error'')]
   \<and> resets (handleNewsletterSubmission n)
     = (case emailInput n of
          None \<Rightarrow> resets n
        | Some str \<Rightarrow> if str \<noteq> [] \<and> str \<in> lang emailRegex then Suc (resets n) else resets n)"
  proof (cases "emailInput n")
    case None
    then show ?thesis
      by (simp add: handle_cases(1) showFormError_fields clearError_fields)
  next
    case (Some w)
    show ?thesis
    proof (cases "w = []")
      case True
      then show ?thesis using Some
        by (simp add: handle_cases(2) showFormError_fields clearError_fields)
    next
      case False
      show ?thesis
      proof (cases "isValidEmail w")
        case True
        then show ?thesis using Some False handle_cases(4) [OF Some False True] v [of w]
          by (simp add: clearError_fields showMessage_def)
      next
        case no: False
        then show ?thesis using Some False handle_cases(3) [OF Some False no] v [of w]
          by (simp add: showFormError_fields clearError_fields)
      qed
    qed
  qed
  then show "notifications (handleNewsletterSubmission n)
     = notifications n @
         [case emailInput n of
            None \<Rightarrow> (''Please enter an email address.'', ''error'')
          | Some str \<Rightarrow>
              if str = [] then (''Please enter an email address.'', ''error'')
              else if str \<in> lang emailRegex then (''Thank you for subscribing!'', ''success'')
              else (''Please enter a valid email address.'', ''error'')]"
    and "resets (handleNewsletterSubmission n)
     = (case emailInput n of
          None \<Rightarrow> resets n
        | Some str \<Rightarrow> if str \<noteq> [] \<and> str \<in> lang emailRegex then Suc (resets n) else resets n)"
    by simp_all
qed

section \<open>The worked examples\<close>

lemma example_host_fields:
  "noise3D (example_host hits) a b c = 1"
  "toWorld (example_host hits) v = v"
  "toLocal (example_host hits) v = v"
  "intersectObject (example_host hits) mo cam = hits"
  by (simp_all add: example_host_def)

lemma quiet_host_fields:
  "noise3D (quiet_host hits) a b c = 0"
  "toWorld (quiet_host hits) v = v"
  "toLocal (quiet_host hits) v = v"
  "intersectObject (quiet_host hits) mo cam = hits"
  by (simp_all add: quiet_host_def example_host_def)

lemma example_random:
  "random (example_host hits) k = [0, 1 / 2, 1 / 4, 1 / 2, 1 / 2, 1 / 2, 3 / 4, 1 / 2] ! (k mod 8)"
  by (simp add: example_host_def)

lemma example_draws: "0 \<le> random (example_host hits) k \<and> random (example_host hits) k < 1"
proof -
  have "k mod 8 < 8" by simp
  then consider "k mod 8 = 0" | "k mod 8 = 1" | "k mod 8 = 2" | "k mod 8 = 3"
    | "k mod 8 = 4" | "k mod 8 = 5" | "k mod 8 = 6" | "k mod 8 = 7"
    by linarith
  then show ?thesis by cases (simp_all add: example_random)
qed

lemma example_spherePoints:
  "spherePoint 5 0 (1 / 2) = Vector3 5 0 0"
  "spherePoint 5 (1 / 4) (1 / 2) = Vector3 0 5 0"
  "spherePoint 5 (1 / 2) (1 / 2) = Vector3 (- 5) 0 0"
  "spherePoint 5 (3 / 4) (1 / 2) = Vector3 0 (- 5) 0"
proof -
  show "spherePoint 5 0 (1 / 2) = Vector3 5 0 0"
    "spherePoint 5 (1 / 4) (1 / 2) = Vector3 0 5 0"
    "spherePoint 5 (1 / 2) (1 / 2) = Vector3 (- 5) 0 0"
    by (simp_all add: spherePoint_def Let_def)
  show "spherePoint 5 (3 / 4) (1 / 2) = Vector3 0 (- 5) 0"
    using cos_3over2_pi sin_3over2_pi by (simp add: spherePoint_def Let_def)
qed

lemma example_globe_fields:
  "isInView (example_globe hits)"
  "\<not> isTouchDevice (example_globe hits)"
  "container (example_globe hits)"
  "clickStrength (example_globe hits) = 0"
  "PARTICLE_COUNT (example_globe hits) = 4"
  "MOUSE_INFLUENCE_RADIUS (example_globe hits) = 2"
  "MOUSE_REPEL_STRENGTH (example_globe hits) = 8"
  "NOISE_AMPLITUDE (example_globe hits) = 45 / 100"
  by (simp_all add: example_globe_def setupGlobe_fields init_fields_def example_window_def Let_def)

text \<open>The first particle of the example globe rests at \<open>(5, 0, 0)\<close>.\<close>

lemma example_globe_first:
  "getXYZ (arrays (example_globe hits) ! originalPositions (example_globe hits)) 0 = Vector3 5 0 0"
  "getXYZ (arrays (example_globe hits) ! positionAttribute (example_globe hits)) 0 = Vector3 5 0 0"
proof -
  let ?h = "example_host hits"
  let ?s = "(init_fields ?h example_window)\<lparr>PARTICLE_COUNT := 4\<rparr>"
  have R: "GLOBE_RADIUS ?s = 5" and N: "0 < PARTICLE_COUNT ?s"
    by (simp_all add: init_fields_def Let_def)
  show "getXYZ (arrays (example_globe hits) ! originalPositions (example_globe hits)) 0 = Vector3 5 0 0"
    using setupGlobe_arrays(1) [OF N, of ?h]
    by (simp add: R example_random example_spherePoints example_globe_def)
  show "getXYZ (arrays (example_globe hits) ! positionAttribute (example_globe hits)) 0 = Vector3 5 0 0"
    using setupGlobe_arrays(2) [OF N, of ?h]
    by (simp add: R example_random example_spherePoints example_globe_def)
qed

lemma example_globe_ok: "globe_ok (example_globe hits)"
  by (simp add: example_globe_def setupGlobe_ok)

text \<open>
  The globe of \<open>init\<close> in the example surroundings: its first particle rests at
  \<open>(5, 0, 0)\<close> and, the noise being 1, shimmers at \<open>(5.45, 0, 0)\<close> in every frame.
\<close>

lemma example_init_globe:
  "getXYZ (arrays (setupGlobe (example_host hits) (init_fields (example_host hits) example_window))
            ! originalPositions (setupGlobe (example_host hits) (init_fields (example_host hits) example_window))) 0
     = Vector3 5 0 0"
  "getXYZ (arrays (setupGlobe (example_host hits) (init_fields (example_host hits) example_window))
            ! positionAttribute (setupGlobe (example_host hits) (init_fields (example_host hits) example_window))) 0
     = Vector3 5 0 0"
proof -
  let ?h = "example_host hits"
  let ?s = "init_fields ?h example_window"
  have R: "GLOBE_RADIUS ?s = 5" and N: "0 < PARTICLE_COUNT ?s"
    by (simp_all add: init_fields_def Let_def)
  show "getXYZ (arrays (setupGlobe ?h ?s) ! originalPositions (setupGlobe ?h ?s)) 0 = Vector3 5 0 0"
    using setupGlobe_arrays(1) [OF N, of ?h]
    by (simp add: R example_random example_spherePoints)
  show "getXYZ (arrays (setupGlobe ?h ?s) ! positionAttribute (setupGlobe ?h ?s)) 0 = Vector3 5 0 0"
    using setupGlobe_arrays(2) [OF N, of ?h]
    by (simp add: R example_random example_spherePoints)
qed

lemma example_shimmer:
  assumes "getXYZ (arrays x ! originalPositions x) 0 = Vector3 5 0 0"
    and "NOISE_AMPLITUDE x = 45 / 100"
  shows "toWorld (example_host hits)
           (shimmeringPos (example_host hits) (loop_state (example_host hits) f x) t 0)
         = Vector3 (109 / 20) 0 0"
proof -
  let ?h = "example_host hits"
  let ?s = "loop_state ?h f x"
  have o: "originalPos ?s 0 = Vector3 5 0 0"
    using assms(1) by (simp add: originalPos_def loop_state_fields)
  have nv: "noiseValue ?h ?s t 0 = 1"
    by (simp add: noiseValue_def o example_host_fields)
  have "shimmeringPos ?h ?s t 0 = Vector3 (109 / 20) 0 0"
    using assms(2) by (simp add: shimmeringPos_def Let_def o nv normalize_v3_axis loop_state_fields)
  then show ?thesis by (simp add: example_host_fields)
qed

lemma test_example_valid: "test emailRegex [0x61, 0x40, 0x62, 0x2E, 0x63]"
  by (simp add: test_def emailRegex_def OneOrMore_def notSpaceAt_def isWhiteSpace_def)

lemma test_example_invalid: "\<not> test emailRegex [0x61, 0x40, 0x62]"
  by (simp add: test_def emailRegex_def OneOrMore_def notSpaceAt_def isWhiteSpace_def)

lemma test_example_space: "\<not> test emailRegex [0x61, 0x20, 0x40, 0x62, 0x2E, 0x63]"
  by (simp add: test_def emailRegex_def OneOrMore_def notSpaceAt_def isWhiteSpace_def)

section \<open>The properties of the specification\<close>

text \<open>
  C1. The array of original positions is written once, by \<open>setupGlobe\<close>, and never again.
  After any sequence of frames and handler calls, of any length, the field
  \<open>originalPositions\<close> still names the same array of the store and that array holds the
  same numbers. It is neither the array behind the position attribute nor the one behind
  the colour attribute, which are the two arrays a frame writes, and every array of the
  store other than these two is left as \<open>setupGlobe\<close> made it.
\<close>

theorem original_positions_never_mutated:
  "originalPositions (run h evs (setupGlobe h s0)) = originalPositions (setupGlobe h s0)
   \<and> arrays (run h evs (setupGlobe h s0)) ! originalPositions (setupGlobe h s0)
       = arrays (setupGlobe h s0) ! originalPositions (setupGlobe h s0)
   \<and> originalPositions (setupGlobe h s0) \<noteq> positionAttribute (setupGlobe h s0)
   \<and> originalPositions (setupGlobe h s0) \<noteq> colorAttribute (setupGlobe h s0)
   \<and> (\<forall>r. r \<noteq> positionAttribute (setupGlobe h s0) \<and> r \<noteq> colorAttribute (setupGlobe h s0)
          \<longrightarrow> arrays (run h evs (setupGlobe h s0)) ! r = arrays (setupGlobe h s0) ! r)
   \<and> (\<forall>s. init h w f = Some s \<longrightarrow>
          arrays (run h evs s) ! originalPositions (run h evs s)
            = arrays (setupGlobe h (init_fields h w))
                ! originalPositions (setupGlobe h (init_fields h w)))"
proof -
  have separate: "originalPositions (setupGlobe h s) \<noteq> positionAttribute (setupGlobe h s)"
    "originalPositions (setupGlobe h s) \<noteq> colorAttribute (setupGlobe h s)" for s
    by (simp_all add: setupGlobe_refs)
  have kept: "arrays (run h es (setupGlobe h s)) ! originalPositions (setupGlobe h s)
      = arrays (setupGlobe h s) ! originalPositions (setupGlobe h s)" for es s
    using separate by (rule run_array_other)
  have others: "arrays (run h evs (setupGlobe h s0)) ! r = arrays (setupGlobe h s0) ! r"
    if "r \<noteq> positionAttribute (setupGlobe h s0) \<and> r \<noteq> colorAttribute (setupGlobe h s0)" for r
    using that by (simp add: run_array_other)
  have from_init: "arrays (run h evs s) ! originalPositions (run h evs s)
      = arrays (setupGlobe h (init_fields h w)) ! originalPositions (setupGlobe h (init_fields h w))"
    if "init h w f = Some s" for s
  proof -
    let ?g = "setupGlobe h (init_fields h w)"
    have "s = animate h f ?g" using that by (simp add: init_Some)
    then have "run h evs s = run h (Frame f # evs) ?g" by (simp add: run_def)
    then show ?thesis
      using kept [of "Frame f # evs" "init_fields h w"] run_refs [of h "Frame f # evs" ?g]
      by simp
  qed
  show ?thesis
    using separate [of s0] kept [of evs s0] others from_init run_refs [of h evs "setupGlobe h s0"]
    by blast
qed

text \<open>
  On the example globe, after three frames, a click that hits and a resize, the first
  original position is still the point \<open>setupGlobe\<close> put there.
\<close>

theorem original_positions_never_mutated_witness:
  "getXYZ (arrays (run (example_host [Vector3 0 0 5])
             [Frame example_frame, Click example_rect 400 300, Frame example_frame,
              Resize 1024 768, Frame example_frame]
             (example_globe [Vector3 0 0 5]))
           ! originalPositions (example_globe [Vector3 0 0 5])) 0
     = Vector3 5 0 0"
  using original_positions_never_mutated
    [of "example_host [Vector3 0 0 5]"
        "[Frame example_frame, Click example_rect 400 300, Frame example_frame,
          Resize 1024 768, Frame example_frame]"
        "(init_fields (example_host [Vector3 0 0 5]) example_window)\<lparr>PARTICLE_COUNT := 4\<rparr>"]
    example_globe_first(1) [of "[Vector3 0 0 5]"]
  by (simp add: example_globe_def)

text \<open>
  C2. A click that hits the sphere sets the impulse strength to 15. Over the visible
  frames that follow, the strength after one more frame is never larger than before;
  after \<open>n < 143\<close> frames it is \<open>15 * 0.95 ^ n\<close>, and after 143 frames or more it is exactly
  0. The bound the specification names, \<open>\<lceil>ln (0.01 / 15) / ln 0.95\<rceil>\<close>, is 143, which lies
  within the 144 frames it gives as the approximate figure.
\<close>

theorem impulse_decays_to_zero:
  assumes "isInView s"
    and "intersectObject h (pointer_to_mouse r px py) (camera s) \<noteq> []"
  shows "clickStrength (onMouseClick h r (px, py) s) = 15
     \<and> (\<forall>fs f. clickStrength (run h (map Frame (fs @ [f])) (onMouseClick h r (px, py) s))
               \<le> clickStrength (run h (map Frame fs) (onMouseClick h r (px, py) s)))
     \<and> (\<forall>fs. length fs < 143 \<longrightarrow>
           clickStrength (run h (map Frame fs) (onMouseClick h r (px, py) s))
             = 15 * 0.95 ^ length fs)
     \<and> (\<forall>fs. 143 \<le> length fs \<longrightarrow>
           clickStrength (run h (map Frame fs) (onMouseClick h r (px, py) s)) = 0)
     \<and> \<lceil>ln (0.01 / 15) / ln (0.95 :: real)\<rceil> = 143"
proof -
  let ?s0 = "onMouseClick h r (px, py) s"
  have seed: "clickStrength ?s0 = 15"
    using assms(2) by (simp add: onMouseClick_def triggerDisperse_clickStrength split: list.split)
  have view: "isInView ?s0"
    using assms(1) by (simp add: onMouseClick_def triggerDisperse_fields)
  have val: "clickStrength (run h (map Frame fs) ?s0)
      = (if length fs < 143 then 15 * (19 / 20) ^ length fs else 0)" for fs
    using run_frames_clickStrength [OF view, of h fs] by (simp add: seed decay_power)
  have mono: "clickStrength (run h (map Frame (fs @ [f])) ?s0)
      \<le> clickStrength (run h (map Frame fs) ?s0)" for fs f
  proof -
    have a: "clickStrength (run h (map Frame (fs @ [f])) ?s0)
        = (if Suc (length fs) < 143 then 15 * (19 / 20) ^ Suc (length fs) else 0)"
      using val [of "fs @ [f]"] by simp
    have b: "clickStrength (run h (map Frame fs) ?s0)
        = (if length fs < 143 then 15 * (19 / 20) ^ length fs else 0)"
      by (rule val)
    have "(15::real) * (19 / 20) ^ Suc (length fs) \<le> 15 * (19 / 20) ^ length fs"
      by simp
    moreover have "(0::real) \<le> 15 * (19 / 20) ^ length fs" by simp
    ultimately show ?thesis unfolding a b by auto
  qed
  show ?thesis
    using seed mono frames_ceiling by (simp add: val)
qed

text \<open>
  On the example globe: two frames after a click the strength is \<open>15 * 0.95\<^sup>2\<close>, and 143
  frames after it the strength is 0.
\<close>

theorem impulse_decays_to_zero_witness:
  "clickStrength (run (example_host [Vector3 0 0 5]) (map Frame (replicate 143 example_frame))
      (onMouseClick (example_host [Vector3 0 0 5]) example_rect (400, 300)
         (example_globe [Vector3 0 0 5]))) = 0
   \<and> clickStrength (run (example_host [Vector3 0 0 5]) (map Frame (replicate 2 example_frame))
      (onMouseClick (example_host [Vector3 0 0 5]) example_rect (400, 300)
         (example_globe [Vector3 0 0 5]))) = 5415 / 400"
proof -
  let ?h = "example_host [Vector3 0 0 5]"
  have hit: "intersectObject ?h (pointer_to_mouse example_rect 400 300)
      (camera (example_globe [Vector3 0 0 5])) \<noteq> []"
    by (simp add: example_host_def)
  note inst = impulse_decays_to_zero [OF example_globe_fields(1) hit]
  have "clickStrength (run ?h (map Frame (replicate 143 example_frame))
      (onMouseClick ?h example_rect (400, 300) (example_globe [Vector3 0 0 5]))) = 0"
    using inst [THEN conjunct2, THEN conjunct2, THEN conjunct2, THEN conjunct1, rule_format,
        of "replicate 143 example_frame"]
    by simp
  moreover have "clickStrength (run ?h (map Frame (replicate 2 example_frame))
      (onMouseClick ?h example_rect (400, 300) (example_globe [Vector3 0 0 5]))) = 5415 / 400"
    using inst [THEN conjunct2, THEN conjunct2, THEN conjunct1, rule_format, of "replicate 2 example_frame"]
    by (simp add: power2_eq_square)
  ultimately show ?thesis by simp
qed

text \<open>
  C3. Take a frame in which the impulse strength the loop reads is zero (as it is when it
  was zero before the frame) and the pointer has no influence on particle \<open>i\<close>: the device
  is a touch device, or the world shimmering position of the particle is not closer to
  the pointer point than the influence radius. Then the target position the frame
  computes for the particle is its shimmering position, the original position plus its
  normal scaled by the noise value times the amplitude, with no repulsion added; and in a
  visible frame the particle moves 8 percent of the way from its animated position to
  that point. The frame maps the world target back with the inverse of the matrix it
  mapped the shimmering position with; that the two cancel is the first assumption.
\<close>

theorem idle_target_is_shimmering_position:
  assumes "\<forall>p. toLocal h (toWorld h p) = p"
    and "clickStrength (loop_state h f s) = 0"
    and "isTouchDevice s
         \<or> \<not> distanceTo_v3 (toWorld h (shimmeringPos h (loop_state h f s) (elapsedTime f) i))
                (frame_mouse3D h f s) < MOUSE_INFLUENCE_RADIUS s"
  shows "targetPos h (loop_state h f s) (elapsedTime f) (frame_mouse3D h f s) i
           = shimmeringPos h (loop_state h f s) (elapsedTime f) i
       \<and> shimmeringPos h (loop_state h f s) (elapsedTime f) i
           = add_v3 (originalPos s i)
               (multiplyScalar_v3 (normalize_v3 (originalPos s i))
                  (noiseValue h s (elapsedTime f) i * NOISE_AMPLITUDE s))
       \<and> (globe_ok s \<and> isInView s \<and> i < PARTICLE_COUNT s \<longrightarrow>
            getXYZ (arrays (animate h f s) ! positionAttribute s) i
              = lerp_v3 (getXYZ (arrays s ! positionAttribute s) i)
                  (shimmeringPos h (loop_state h f s) (elapsedTime f) i) 0.08)"
proof -
  let ?s = "loop_state h f s"
  have far: "isTouchDevice ?s
      \<or> \<not> distanceTo_v3 (toWorld h (shimmeringPos h ?s (elapsedTime f) i)) (frame_mouse3D h f s)
            < MOUSE_INFLUENCE_RADIUS ?s"
    using assms(3) by (simp add: loop_state_fields)
  have target: "targetPos h ?s (elapsedTime f) (frame_mouse3D h f s) i
      = shimmeringPos h ?s (elapsedTime f) i"
    using assms(1,2) far by (rule targetPos_idle)
  have shimmer: "shimmeringPos h ?s (elapsedTime f) i
      = add_v3 (originalPos s i)
          (multiplyScalar_v3 (normalize_v3 (originalPos s i))
             (noiseValue h s (elapsedTime f) i * NOISE_AMPLITUDE s))"
    by (simp add: shimmeringPos_def Let_def loop_state_values loop_state_fields)
  have "getXYZ (arrays (animate h f s) ! positionAttribute s) i
      = lerp_v3 (getXYZ (arrays s ! positionAttribute s) i)
          (shimmeringPos h ?s (elapsedTime f) i) 0.08"
    if "globe_ok s \<and> isInView s \<and> i < PARTICLE_COUNT s"
    using animate_particle_result [of s i h f] that target by simp
  then show ?thesis using target shimmer by blast
qed

text \<open>
  A frame of the example globe with the pointer ray missing the sphere: the first particle
  rests at \<open>(5, 0, 0)\<close>, its shimmering position is \<open>(5.45, 0, 0)\<close>, which is its target, and
  the frame moves it 8 percent of the way, to \<open>(5.036, 0, 0)\<close>.
\<close>

theorem idle_target_is_shimmering_position_witness:
  "targetPos (example_host []) (loop_state (example_host []) example_frame (example_globe []))
       (elapsedTime example_frame)
       (frame_mouse3D (example_host []) example_frame (example_globe [])) 0
     = Vector3 (109 / 20) 0 0
   \<and> getXYZ (arrays (animate (example_host []) example_frame (example_globe []))
              ! positionAttribute (example_globe [])) 0
     = Vector3 (1259 / 250) 0 0"
proof -
  let ?h = "example_host []" and ?g = "example_globe []"
  let ?s = "loop_state ?h example_frame ?g"
  let ?t = "elapsedTime example_frame"
  let ?m = "frame_mouse3D ?h example_frame ?g"
  have inv: "\<forall>p. toLocal ?h (toWorld ?h p) = p" by (simp add: example_host_fields)
  have cs: "clickStrength ?s = 0"
    by (simp add: loop_state_fields example_globe_fields decay_zero)
  have m: "?m = Vector3 0 0 0" by (simp add: frame_mouse3D_def example_host_fields)
  have o: "originalPos ?s 0 = Vector3 5 0 0"
    by (simp add: originalPos_def loop_state_fields example_globe_first)
  have nv: "noiseValue ?h ?s ?t 0 = 1"
    by (simp add: noiseValue_def o example_host_fields)
  have sh: "shimmeringPos ?h ?s ?t 0 = Vector3 (109 / 20) 0 0"
    by (simp add: shimmeringPos_def Let_def o nv normalize_v3_axis loop_state_fields
        example_globe_fields)
  have far: "isTouchDevice ?g \<or> \<not> distanceTo_v3 (toWorld ?h (shimmeringPos ?h ?s ?t 0)) ?m
           < MOUSE_INFLUENCE_RADIUS ?g"
    unfolding sh m
    by (simp add: example_host_fields distanceTo_v3_axis example_globe_fields)
  note inst = idle_target_is_shimmering_position [OF inv cs far]
  have target: "targetPos ?h ?s ?t ?m 0 = Vector3 (109 / 20) 0 0"
    using inst [THEN conjunct1] sh by simp
  have "getXYZ (arrays (animate ?h example_frame ?g) ! positionAttribute ?g) 0
      = lerp_v3 (getXYZ (arrays ?g ! positionAttribute ?g) 0) (shimmeringPos ?h ?s ?t 0) 0.08"
    using inst [THEN conjunct2, THEN conjunct2] example_globe_ok [of "[]"]
    by (simp add: example_globe_fields)
  then have "getXYZ (arrays (animate ?h example_frame ?g) ! positionAttribute ?g) 0
      = Vector3 (1259 / 250) 0 0"
    by (simp add: sh example_globe_first)
  then show ?thesis using target by simp
qed

text \<open>
  C4. While the visibility flag is false a frame changes nothing: \<open>animate\<close> returns the
  object as it was, so the position array, the colour array, the impulse strength and the
  count of render calls all stay, and so they do over any number of such frames.
\<close>

theorem invisible_frame_does_nothing:
  assumes "\<not> isInView s"
  shows "animate h f s = s \<and> run h (map Frame fs) s = s"
proof -
  have 1: "animate h f s = s" for f using assms by (simp add: animate_def)
  have "run h (map Frame fs) s = s"
    unfolding run_def by (induction fs) (simp_all add: 1)
  with 1 show ?thesis by simp
qed

text \<open>The example globe, scrolled out of view, over one frame and over three.\<close>

theorem invisible_frame_does_nothing_witness:
  "animate (example_host []) example_frame ((example_globe [])\<lparr>isInView := False\<rparr>)
     = (example_globe [])\<lparr>isInView := False\<rparr>
   \<and> run (example_host []) (map Frame [example_frame, example_frame, example_frame])
        ((example_globe [])\<lparr>isInView := False\<rparr>)
     = (example_globe [])\<lparr>isInView := False\<rparr>"
  using invisible_frame_does_nothing
    [of "(example_globe [])\<lparr>isInView := False\<rparr>" "example_host []" example_frame
        "[example_frame, example_frame, example_frame]"]
  by simp

text \<open>
  C5. When the measured width or height of the container is zero, \<open>onWindowResize\<close>
  returns the object unchanged: aspect ratio, projection matrix and renderer size stay, and
  no quotient by zero is formed. With a container of non-zero width and height the aspect
  ratio becomes width / height, the projection matrix is recomputed from it and the
  renderer gets the new size. Hence a resize changes the camera or the renderer size only
  when both width and height are non-zero. The one-time resize at the head of a frame goes
  through the same handler: with a container of zero width or height the frame reaches
  its loop with the camera and the renderer size as they were.
\<close>

theorem resize_zero_size_changes_nothing:
  "(w = 0 \<or> ht = 0 \<longrightarrow> onWindowResize h (w, ht) s = s)
   \<and> (w \<noteq> 0 \<and> ht \<noteq> 0 \<and> container s \<longrightarrow>
        aspect (camera (onWindowResize h (w, ht) s)) = real w / real ht
        \<and> projectionMatrix (camera (onWindowResize h (w, ht) s))
            = updateProjectionMatrix h ((camera s)\<lparr>aspect := real w / real ht\<rparr>)
        \<and> renderer_size (onWindowResize h (w, ht) s) = Some (w, ht))
   \<and> (camera (onWindowResize h (w, ht) s) \<noteq> camera s
        \<or> renderer_size (onWindowResize h (w, ht) s) \<noteq> renderer_size s
        \<longrightarrow> w \<noteq> 0 \<and> ht \<noteq> 0)
   \<and> (clientWidth f = 0 \<or> clientHeight f = 0 \<longrightarrow>
        camera (loop_state h f s) = camera s
        \<and> renderer_size (loop_state h f s) = renderer_size s)"
  by (auto simp add: onWindowResize_def loop_state_def Let_def)

text \<open>The example globe resized to 0 by 600, to 800 by 0 and to 800 by 600.\<close>

theorem resize_zero_size_changes_nothing_witness:
  "onWindowResize (example_host []) (0, 600) (example_globe []) = example_globe []
   \<and> onWindowResize (example_host []) (800, 0) (example_globe []) = example_globe []
   \<and> aspect (camera (onWindowResize (example_host []) (800, 600) (example_globe []))) = 4 / 3
   \<and> renderer_size (onWindowResize (example_host []) (800, 600) (example_globe []))
       = Some (800, 600)"
  using resize_zero_size_changes_nothing [of 0 600 "example_host []" "example_globe []"]
    resize_zero_size_changes_nothing [of 800 0 "example_host []" "example_globe []"]
    resize_zero_size_changes_nothing [of 800 600 "example_host []" "example_globe []"]
  by (simp add: example_globe_fields)

text \<open>
  C6. For every particle \<open>i\<close> below \<open>PARTICLE_COUNT\<close>, with its two draws \<open>u\<close> (draw \<open>2i\<close>) and
  \<open>v\<close> (draw \<open>2i + 1\<close>) in \<open>[0, 1)\<close>, \<open>setupGlobe\<close> stores the point
  \<open>(R sin \<phi> cos \<theta>, R sin \<phi> sin \<theta>, R cos \<phi>)\<close> with \<open>\<theta> = 2\<pi>u\<close> and \<open>\<phi> = arccos (2v - 1)\<close> both as
  its original and as its animated position; the point lies at distance \<open>\<bar>R\<bar>\<close> from the
  centre; and its colour is the base colour. The result depends on the surroundings only
  through the sequence of draws: the same draws give the same globe.
\<close>

theorem setupGlobe_samples_sphere:
  assumes "i < PARTICLE_COUNT s"
    and "0 \<le> random h (2 * i) \<and> random h (2 * i) < 1"
    and "0 \<le> random h (2 * i + 1) \<and> random h (2 * i + 1) < 1"
  shows "getXYZ (arrays (setupGlobe h s) ! originalPositions (setupGlobe h s)) i
           = spherePoint (GLOBE_RADIUS s) (random h (2 * i)) (random h (2 * i + 1))
       \<and> getXYZ (arrays (setupGlobe h s) ! positionAttribute (setupGlobe h s)) i
           = spherePoint (GLOBE_RADIUS s) (random h (2 * i)) (random h (2 * i + 1))
       \<and> length_v3 (spherePoint (GLOBE_RADIUS s) (random h (2 * i)) (random h (2 * i + 1)))
           = \<bar>GLOBE_RADIUS s\<bar>
       \<and> getRGB (arrays (setupGlobe h s) ! colorAttribute (setupGlobe h s)) i = baseColor s
       \<and> (\<forall>h'. random h' = random h \<longrightarrow> setupGlobe h' s = setupGlobe h s)"
proof -
  let ?pc = "fold (setupGlobe_particle h s) [0..<PARTICLE_COUNT s]
               (replicate (PARTICLE_COUNT s * 3) 0, replicate (PARTICLE_COUNT s * 3) 0)"
  have loop: "getXYZ (fst ?pc) i = spherePoint (GLOBE_RADIUS s) (random h (2 * i)) (random h (2 * i + 1))"
    "getRGB (snd ?pc) i = baseColor s"
    using setupGlobe_loop [of "PARTICLE_COUNT s" "PARTICLE_COUNT s" h s] assms(1) by simp_all
  have orig: "arrays (setupGlobe h s) ! originalPositions (setupGlobe h s) = fst ?pc"
    by (simp add: setupGlobe_def Let_def nth_append)
  have pos: "arrays (setupGlobe h s) ! positionAttribute (setupGlobe h s) = fst ?pc"
    by (simp add: setupGlobe_def Let_def nth_append)
  have col: "arrays (setupGlobe h s) ! colorAttribute (setupGlobe h s) = snd ?pc"
    by (simp add: setupGlobe_def Let_def nth_append)
  have det: "setupGlobe h' s = setupGlobe h s" if "random h' = random h" for h'
  proof -
    have "setupGlobe_particle h' s = setupGlobe_particle h s"
      using that by (intro ext) (simp add: setupGlobe_particle_def)
    then show ?thesis by (simp add: setupGlobe_def)
  qed
  have "getXYZ (arrays (setupGlobe h s) ! originalPositions (setupGlobe h s)) i
           = spherePoint (GLOBE_RADIUS s) (random h (2 * i)) (random h (2 * i + 1))"
    using loop(1) by (simp only: orig)
  moreover have "getXYZ (arrays (setupGlobe h s) ! positionAttribute (setupGlobe h s)) i
           = spherePoint (GLOBE_RADIUS s) (random h (2 * i)) (random h (2 * i + 1))"
    using loop(1) by (simp only: pos)
  moreover have "getRGB (arrays (setupGlobe h s) ! colorAttribute (setupGlobe h s)) i = baseColor s"
    using loop(2) by (simp only: col)
  moreover have "\<forall>h'. random h' = random h \<longrightarrow> setupGlobe h' s = setupGlobe h s"
    using det by blast
  ultimately show ?thesis
    using spherePoint_on_sphere by blast
qed

text \<open>
  The scenario with four particles: the draws of the example surroundings put them at
  \<open>(5, 0, 0)\<close>, \<open>(0, 5, 0)\<close>, \<open>(-5, 0, 0)\<close> and \<open>(0, -5, 0)\<close>, in the base colour.
\<close>

theorem setupGlobe_samples_sphere_witness:
  "getXYZ (arrays (example_globe []) ! originalPositions (example_globe [])) 0 = Vector3 5 0 0
   \<and> getXYZ (arrays (example_globe []) ! originalPositions (example_globe [])) 1 = Vector3 0 5 0
   \<and> getXYZ (arrays (example_globe []) ! originalPositions (example_globe [])) 2 = Vector3 (- 5) 0 0
   \<and> getXYZ (arrays (example_globe []) ! originalPositions (example_globe [])) 3 = Vector3 0 (- 5) 0
   \<and> getRGB (arrays (example_globe []) ! colorAttribute (example_globe [])) 3
       = Color (80 / 255) (138 / 255) (168 / 255)"
proof -
  let ?h = "example_host []"
  let ?s = "(init_fields ?h example_window)\<lparr>PARTICLE_COUNT := 4\<rparr>"
  have R: "GLOBE_RADIUS ?s = 5" and N: "PARTICLE_COUNT ?s = 4"
    and B: "baseColor ?s = Color (80 / 255) (138 / 255) (168 / 255)"
    by (simp_all add: init_fields_def Let_def example_host_def)
  have "getXYZ (arrays (setupGlobe ?h ?s) ! originalPositions (setupGlobe ?h ?s)) 0 = Vector3 5 0 0"
    using setupGlobe_samples_sphere [of 0 ?s ?h, OF _ example_draws example_draws, THEN conjunct1]
    by (simp add: R N example_random example_spherePoints)
  moreover have "getXYZ (arrays (setupGlobe ?h ?s) ! originalPositions (setupGlobe ?h ?s)) 1 = Vector3 0 5 0"
    using setupGlobe_samples_sphere [of 1 ?s ?h, OF _ example_draws example_draws, THEN conjunct1]
    by (simp add: R N example_random example_spherePoints)
  moreover have "getXYZ (arrays (setupGlobe ?h ?s) ! originalPositions (setupGlobe ?h ?s)) 2 = Vector3 (- 5) 0 0"
    using setupGlobe_samples_sphere [of 2 ?s ?h, OF _ example_draws example_draws, THEN conjunct1]
    by (simp add: R N example_random example_spherePoints)
  moreover have "getXYZ (arrays (setupGlobe ?h ?s) ! originalPositions (setupGlobe ?h ?s)) 3 = Vector3 0 (- 5) 0"
    using setupGlobe_samples_sphere [of 3 ?s ?h, OF _ example_draws example_draws, THEN conjunct1]
    by (simp add: R N example_random example_spherePoints)
  moreover have "getRGB (arrays (setupGlobe ?h ?s) ! colorAttribute (setupGlobe ?h ?s)) 3
      = Color (80 / 255) (138 / 255) (168 / 255)"
    using setupGlobe_samples_sphere [of 3 ?s ?h, OF _ example_draws example_draws,
        THEN conjunct2, THEN conjunct2, THEN conjunct2, THEN conjunct1]
    by (simp add: N B)
  ultimately show ?thesis by (simp add: example_globe_def)
qed

text \<open>
  C7, as amended. Take any frame \<open>f\<close> after \<open>init\<close>, whatever frames and handler calls came
  before, and any particle \<open>i\<close>. Write \<open>p\<close> for the world shimmering position of the particle
  in that frame, \<open>m\<close> for the pointer point of the frame and \<open>d\<close> for their distance. The
  influence radius is 2 and the repel strength 8, as \<open>init\<close> set them. The hover block adds
  a displacement exactly when the device is not a touch device and \<open>d < 2\<close>. When \<open>p\<close> and
  \<open>m\<close> differ, the added vector is a positive multiple of \<open>p - m\<close>, so it points away from
  the pointer, and its length is \<open>((2 - d) / 2) * 8\<close>. When \<open>p\<close> and \<open>m\<close> coincide, the added
  vector is zero, because normalising the zero vector gives the zero vector. The target
  of the particle is \<open>p\<close> plus this vector plus what the click block adds, mapped back from
  the world, and a visible frame writes the animated position moved 8 percent of the way
  to that target.
\<close>

theorem hover_repulsion_linear_in_proximity:
  fixes h w f0 s0 evs f i
  defines "s \<equiv> run h evs s0"
  defines "S \<equiv> loop_state h f (run h evs s0)"
  defines "p \<equiv> toWorld h (shimmeringPos h (loop_state h f (run h evs s0)) (elapsedTime f) i)"
  defines "m \<equiv> frame_mouse3D h f (run h evs s0)"
  assumes "init h w f0 = Some s0" and "i < PARTICLE_COUNT s0"
  shows "MOUSE_INFLUENCE_RADIUS S = 2 \<and> MOUSE_REPEL_STRENGTH S = 8
     \<and> (hoverRepel S p m \<noteq> None \<longleftrightarrow> \<not> isTouchDevice s \<and> distanceTo_v3 p m < 2)
     \<and> (\<forall>v. hoverRepel S p m = Some v \<and> p \<noteq> m \<longrightarrow>
            length_v3 v = ((2 - distanceTo_v3 p m) / 2) * 8
            \<and> (\<exists>k>0. v = multiplyScalar_v3 (sub_v3 p m) k))
     \<and> (\<forall>v. hoverRepel S p m = Some v \<and> p = m \<longrightarrow> v = Vector3 0 0 0)
     \<and> targetPos h S (elapsedTime f) m i
         = toLocal h
             (add_v3 p
                (add_v3 (case hoverRepel S p m of None \<Rightarrow> Vector3 0 0 0 | Some v \<Rightarrow> v)
                        (case clickPush S p of None \<Rightarrow> Vector3 0 0 0 | Some v \<Rightarrow> v)))
     \<and> (isInView s \<longrightarrow>
          getXYZ (arrays (animate h f s) ! positionAttribute s) i
            = lerp_v3 (getXYZ (arrays s ! positionAttribute s) i)
                (targetPos h S (elapsedTime f) m i) 0.08)"
proof -
  have R: "MOUSE_INFLUENCE_RADIUS S = 2" and K: "MOUSE_REPEL_STRENGTH S = 8"
    using init_consts(1,2) [OF assms(5)] run_consts [of h evs s0]
    by (simp_all add: S_def loop_state_fields)
  have touch: "isTouchDevice S = isTouchDevice s"
    by (simp add: S_def s_def loop_state_fields)
  have ok: "globe_ok s" unfolding s_def using init_consts(4) [OF assms(5)] by (rule run_ok)
  have i: "i < PARTICLE_COUNT s" using assms(6) run_consts [of h evs s0] by (simp add: s_def)
  have target: "targetPos h S (elapsedTime f) m i
         = toLocal h
             (add_v3 p
                (add_v3 (case hoverRepel S p m of None \<Rightarrow> Vector3 0 0 0 | Some v \<Rightarrow> v)
                        (case clickPush S p of None \<Rightarrow> Vector3 0 0 0 | Some v \<Rightarrow> v)))"
    by (simp add: targetPos_def Let_def totalDisplacement_sum p_def S_def)
  have written: "getXYZ (arrays (animate h f s) ! positionAttribute s) i
            = lerp_v3 (getXYZ (arrays s ! positionAttribute s) i)
                (targetPos h S (elapsedTime f) m i) 0.08" if "isInView s"
    using animate_particle_result [OF ok that i, of h f] by (simp add: S_def m_def s_def)
  show ?thesis
    using hoverRepel_linear [OF R K, of p m] R K target written unfolding touch by blast
qed

text \<open>
  The globe of \<open>init\<close> in the example surroundings, in the frame after \<open>init\<close>, with the
  pointer ray ending at \<open>(4.45, 0, 0)\<close>: the first particle shimmers at \<open>(5.45, 0, 0)\<close>, one
  unit from the pointer point, the hover block adds \<open>(4, 0, 0)\<close>, the target is
  \<open>(9.45, 0, 0)\<close>, and the frame writes the position 8 percent of the way towards it.
\<close>

theorem hover_repulsion_linear_in_proximity_witness:
  "\<exists>s0. init (example_host [Vector3 (89 / 20) 0 0]) example_window example_frame = Some s0
     \<and> toWorld (example_host [Vector3 (89 / 20) 0 0])
          (shimmeringPos (example_host [Vector3 (89 / 20) 0 0])
             (loop_state (example_host [Vector3 (89 / 20) 0 0]) example_frame s0)
             (elapsedTime example_frame) 0)
        = Vector3 (109 / 20) 0 0
     \<and> frame_mouse3D (example_host [Vector3 (89 / 20) 0 0]) example_frame s0
        = Vector3 (89 / 20) 0 0
     \<and> hoverRepel (loop_state (example_host [Vector3 (89 / 20) 0 0]) example_frame s0)
          (Vector3 (109 / 20) 0 0) (Vector3 (89 / 20) 0 0)
        = Some (Vector3 4 0 0)
     \<and> targetPos (example_host [Vector3 (89 / 20) 0 0])
          (loop_state (example_host [Vector3 (89 / 20) 0 0]) example_frame s0)
          (elapsedTime example_frame)
          (frame_mouse3D (example_host [Vector3 (89 / 20) 0 0]) example_frame s0) 0
        = Vector3 (189 / 20) 0 0
     \<and> getXYZ (arrays (animate (example_host [Vector3 (89 / 20) 0 0]) example_frame s0)
                 ! positionAttribute s0) 0
        = lerp_v3 (getXYZ (arrays s0 ! positionAttribute s0) 0) (Vector3 (189 / 20) 0 0) 0.08"
proof -
  let ?h = "example_host [Vector3 (89 / 20) 0 0]"
  let ?g = "setupGlobe ?h (init_fields ?h example_window)"
  let ?s0 = "animate ?h example_frame ?g"
  let ?S = "loop_state ?h example_frame ?s0"
  let ?t = "elapsedTime example_frame"
  let ?p = "Vector3 (109 / 20) 0 0" and ?m = "Vector3 (89 / 20) 0 0"
  have init: "init ?h example_window example_frame = Some ?s0"
    by (simp add: init_def example_window_def)
  have g: "isInView ?g" "\<not> isTouchDevice ?g" "clickStrength ?g = 0"
    "NOISE_AMPLITUDE ?g = 45 / 100"
    by (simp_all add: setupGlobe_fields init_fields_def example_window_def Let_def)
  have s0: "isInView ?s0" "\<not> isTouchDevice ?s0" "clickStrength ?s0 = 0"
    "NOISE_AMPLITUDE ?s0 = 45 / 100"
    using g by (simp_all add: animate_fields animate_clickStrength decay_zero animate_def Let_def
        onWindowResize_def)
  have "arrays ?s0 ! originalPositions ?g = arrays ?g ! originalPositions ?g"
    by (rule animate_array_other) (simp_all add: setupGlobe_refs)
  then have o: "getXYZ (arrays ?s0 ! originalPositions ?s0) 0 = Vector3 5 0 0"
    by (simp add: animate_fields example_init_globe)
  have p: "toWorld ?h (shimmeringPos ?h ?S ?t 0) = ?p"
    using o s0(4) by (rule example_shimmer)
  have m: "frame_mouse3D ?h example_frame ?s0 = ?m"
    by (simp add: frame_mouse3D_def example_host_fields)
  have d: "distanceTo_v3 ?p ?m = 1" by (simp add: distanceTo_v3_axis)
  have count: "0 < PARTICLE_COUNT ?s0"
    using init_consts(3) [OF init] by simp
  note inst = hover_repulsion_linear_in_proximity [where evs = "[]" and f = example_frame and i = 0, OF init count,
      unfolded run_def fold_simps id_apply p m]
  have "hoverRepel ?S ?p ?m \<noteq> None"
    using inst [THEN conjunct2, THEN conjunct2, THEN conjunct1] s0(2) by (simp add: d)
  then obtain v where v: "hoverRepel ?S ?p ?m = Some v" by blast
  have l: "length_v3 v = 4" and "\<exists>k>0. v = multiplyScalar_v3 (sub_v3 ?p ?m) k"
    using inst [THEN conjunct2, THEN conjunct2, THEN conjunct2, THEN conjunct1, rule_format, of v] v
    by (simp_all add: d)
  then obtain k where k: "0 < k" "v = Vector3 k 0 0" by auto
  then have v4: "v = Vector3 4 0 0" using l by simp
  have click: "clickPush ?S ?p = None"
    by (rule clickPush_zero) (simp add: loop_state_fields s0(3) decay_zero)
  have target: "targetPos ?h ?S ?t ?m 0 = Vector3 (189 / 20) 0 0"
    using inst [THEN conjunct2, THEN conjunct2, THEN conjunct2, THEN conjunct2, THEN conjunct2,
        THEN conjunct1]
    by (simp add: v v4 click example_host_fields)
  have written: "getXYZ (arrays (animate ?h example_frame ?s0) ! positionAttribute ?s0) 0
      = lerp_v3 (getXYZ (arrays ?s0 ! positionAttribute ?s0) 0) (Vector3 (189 / 20) 0 0) 0.08"
    using inst [THEN conjunct2, THEN conjunct2, THEN conjunct2, THEN conjunct2, THEN conjunct2,
        THEN conjunct2] s0(1) target
    by simp
  show ?thesis
    using init p m v v4 target written by (intro exI [of _ ?s0]) simp
qed

text \<open>
  C7 as first stated gives the added displacement the length \<open>((2 - d) / 2) * 8\<close> whenever
  it is added. Take a frame with the noise 0 at the first particle of the example globe,
  so that it shimmers at its rest position \<open>(5, 0, 0)\<close>, and with the pointer ray hitting
  the sphere at that very point. The hover block runs for the particle (\<open>d = 0 < 2\<close>, no
  touch device), the formula gives 8, and the vector added has length 0.
\<close>

theorem hover_repulsion_counterexample:
  "toWorld (quiet_host [Vector3 5 0 0])
       (shimmeringPos (quiet_host [Vector3 5 0 0])
          (loop_state (quiet_host [Vector3 5 0 0]) example_frame (example_globe [Vector3 5 0 0]))
          (elapsedTime example_frame) 0)
     = Vector3 5 0 0
   \<and> frame_mouse3D (quiet_host [Vector3 5 0 0]) example_frame (example_globe [Vector3 5 0 0])
     = Vector3 5 0 0
   \<and> hoverRepel
       (loop_state (quiet_host [Vector3 5 0 0]) example_frame (example_globe [Vector3 5 0 0]))
       (Vector3 5 0 0) (Vector3 5 0 0)
     = Some (Vector3 0 0 0)
   \<and> \<not> isTouchDevice (example_globe [Vector3 5 0 0])
   \<and> distanceTo_v3 (Vector3 5 0 0) (Vector3 5 0 0) < 2
   \<and> length_v3 (Vector3 0 0 0) = 0
   \<and> ((MOUSE_INFLUENCE_RADIUS (example_globe [Vector3 5 0 0])
          - distanceTo_v3 (Vector3 5 0 0) (Vector3 5 0 0))
         / MOUSE_INFLUENCE_RADIUS (example_globe [Vector3 5 0 0]))
        * MOUSE_REPEL_STRENGTH (example_globe [Vector3 5 0 0]) = 8"
proof -
  let ?h = "quiet_host [Vector3 5 0 0]" and ?g = "example_globe [Vector3 5 0 0]"
  let ?s = "loop_state ?h example_frame ?g"
  have o: "originalPos ?s 0 = Vector3 5 0 0"
    by (simp add: originalPos_def loop_state_fields example_globe_first)
  have nv: "noiseValue ?h ?s (elapsedTime example_frame) 0 = 0"
    by (simp add: noiseValue_def o quiet_host_fields)
  have "shimmeringPos ?h ?s (elapsedTime example_frame) 0 = Vector3 5 0 0"
    by (simp add: shimmeringPos_def Let_def o nv normalize_v3_axis)
  then have p: "toWorld ?h (shimmeringPos ?h ?s (elapsedTime example_frame) 0) = Vector3 5 0 0"
    by (simp add: quiet_host_fields)
  have m: "frame_mouse3D ?h example_frame ?g = Vector3 5 0 0"
    by (simp add: frame_mouse3D_def quiet_host_fields)
  have "hoverRepel ?s (Vector3 5 0 0) (Vector3 5 0 0) = Some (Vector3 0 0 0)"
    by (simp add: hoverRepel_def Let_def loop_state_fields example_globe_fields
        distanceTo_v3_axis normalize_v3_zero)
  then show ?thesis
    using p m by (simp add: example_globe_fields distanceTo_v3_axis)
qed

text \<open>
  C8. A click casts the pointer ray at the invisible sphere. When the ray hits, the
  impulse origin becomes the first hit point and the impulse strength becomes 15; when it
  misses, both keep their values. A touch start does the same with its first touch, and
  with no touch at all it changes nothing.
\<close>

theorem click_seeds_impulse_on_hit:
  "clickPoint (onMouseClick h r (px, py) s)
     = (case intersectObject h (pointer_to_mouse r px py) (camera s) of
          [] \<Rightarrow> clickPoint s | p # ps \<Rightarrow> p)
   \<and> clickStrength (onMouseClick h r (px, py) s)
     = (case intersectObject h (pointer_to_mouse r px py) (camera s) of
          [] \<Rightarrow> clickStrength s | p # ps \<Rightarrow> 15)
   \<and> onTouchStart h r ((px, py) # touches) s = onMouseClick h r (px, py) s
   \<and> onTouchStart h r [] s = s"
  by (simp add: onMouseClick_def onTouchStart_def triggerDisperse_clickPoint
      triggerDisperse_clickStrength)

text \<open>A click on the example globe that hits at \<open>(0, 0, 5)\<close>, and one that misses.\<close>

theorem click_seeds_impulse_on_hit_witness:
  "clickPoint (onMouseClick (example_host [Vector3 0 0 5]) example_rect (400, 300)
      (example_globe [Vector3 0 0 5])) = Vector3 0 0 5
   \<and> clickStrength (onMouseClick (example_host [Vector3 0 0 5]) example_rect (400, 300)
      (example_globe [Vector3 0 0 5])) = 15
   \<and> clickPoint (onMouseClick (example_host []) example_rect (400, 300)
      ((example_globe [])\<lparr>clickPoint := Vector3 1 2 3, clickStrength := 7\<rparr>)) = Vector3 1 2 3
   \<and> clickStrength (onMouseClick (example_host []) example_rect (400, 300)
      ((example_globe [])\<lparr>clickPoint := Vector3 1 2 3, clickStrength := 7\<rparr>)) = 7"
  using click_seeds_impulse_on_hit [of "example_host [Vector3 0 0 5]" example_rect 400 300
      "example_globe [Vector3 0 0 5]"]
    click_seeds_impulse_on_hit [of "example_host []" example_rect 400 300
      "(example_globe [])\<lparr>clickPoint := Vector3 1 2 3, clickStrength := 7\<rparr>"]
  by (simp add: example_host_def)

text \<open>
  C9. The impulse strength is 0 when \<open>init\<close> is done, and it is never negative afterwards,
  whatever frames, clicks, touches, pointer moves, resizes and visibility changes follow.
\<close>

theorem clickStrength_never_negative:
  assumes "init h w f = Some s"
  shows "clickStrength s = 0 \<and> 0 \<le> clickStrength (run h evs s)"
proof -
  have "s = animate h f (setupGlobe h (init_fields h w))"
    using assms by (simp add: init_Some)
  then have "clickStrength s = 0"
    by (simp add: animate_clickStrength setupGlobe_fields init_fields_values decay_zero)
  then show ?thesis using run_nonneg [of s h evs] by simp
qed

text \<open>The globe of \<open>init\<close>, then a click, a frame, a resize, a scroll out of view and a frame.\<close>

theorem clickStrength_never_negative_witness:
  "\<exists>s. init (example_host [Vector3 0 0 5]) example_window example_frame = Some s
       \<and> clickStrength s = 0
       \<and> 0 \<le> clickStrength (run (example_host [Vector3 0 0 5])
                [Click example_rect 400 300, Frame example_frame, Resize 0 0,
                 Intersection [False], Frame example_frame] s)"
proof -
  obtain s where s: "init (example_host [Vector3 0 0 5]) example_window example_frame = Some s"
    by (simp add: init_def example_window_def)
  show ?thesis
    using clickStrength_never_negative [OF s] s by blast
qed

text \<open>
  C10. \<open>handleNewsletterSubmission\<close> puts up exactly one notification. It is the success
  message, and the form is reset, exactly when the email input has a value that is not
  empty and matches the pattern. Otherwise it is an error and the form is not reset: the
  message for a missing address when there is no value or the value is empty, the message
  for an invalid address when the value is not empty and fails the pattern. Matching the
  pattern, as \<open>isValidEmail\<close> computes it, is membership in the language of the pattern:
  a first part, \<open>@\<close>, a second part, a full stop and a third part, each part non-empty and
  free of white space and of \<open>@\<close>.
\<close>

theorem newsletter_success_iff_valid_email:
  "notifications (handleNewsletterSubmission n)
     = notifications n @
         [case emailInput n of
            None \<Rightarrow> (''Please enter an email address.'', ''error'')
          | Some str \<Rightarrow>
              if str = [] then (''Please enter an email address.'', ''error'')
              else if str \<in> lang emailRegex then (''Thank you for subscribing!'', ''success'')
              else (''Please enter a valid email address.'', ''error'')]
   \<and> resets (handleNewsletterSubmission n)
     = (case emailInput n of
          None \<Rightarrow> resets n
        | Some str \<Rightarrow> if str \<noteq> [] \<and> str \<in> lang emailRegex then Suc (resets n) else resets n)
   \<and> ((last (notifications (handleNewsletterSubmission n))
          = (''Thank you for subscribing!'', ''success'')
        \<and> resets (handleNewsletterSubmission n) = Suc (resets n))
      \<longleftrightarrow> (\<exists>str. emailInput n = Some str \<and> str \<noteq> [] \<and> str \<in> lang emailRegex))
   \<and> (isValidEmail str \<longleftrightarrow> str \<in> lang emailRegex)
   \<and> (str \<in> lang emailRegex \<longleftrightarrow>
        (\<exists>a b c. str = a @ [0x40] @ b @ [0x2E] @ c
           \<and> a \<noteq> [] \<and> b \<noteq> [] \<and> c \<noteq> []
           \<and> list_all notSpaceAt a \<and> list_all notSpaceAt b \<and> list_all notSpaceAt c))"
proof -
  have "(last (notifications (handleNewsletterSubmission n))
          = (''Thank you for subscribing!'', ''success'')
        \<and> resets (handleNewsletterSubmission n) = Suc (resets n))
      \<longleftrightarrow> (\<exists>str. emailInput n = Some str \<and> str \<noteq> [] \<and> str \<in> lang emailRegex)"
    unfolding handle_result by (cases "emailInput n") auto
  moreover have "isValidEmail str \<longleftrightarrow> str \<in> lang emailRegex"
    by (simp add: isValidEmail_def test_lang)
  ultimately show ?thesis using handle_result [of n] lang_emailRegex [of str] by blast
qed

text \<open>The values \<open>a@b.c\<close>, \<open>a@b\<close> and the empty string, submitted on a fresh page.\<close>

theorem newsletter_success_iff_valid_email_witness:
  "notifications (handleNewsletterSubmission
      \<lparr>emailInput = Some [0x61, 0x40, 0x62, 0x2E, 0x63], errorElement = Some ([], ''sr-only''),
       aria_invalid = False, focused = False, notifications = [], resets = 0\<rparr>)
     = [(''Thank you for subscribing!'', ''success'')]
   \<and> resets (handleNewsletterSubmission
      \<lparr>emailInput = Some [0x61, 0x40, 0x62, 0x2E, 0x63], errorElement = Some ([], ''sr-only''),
       aria_invalid = False, focused = False, notifications = [], resets = 0\<rparr>) = 1
   \<and> notifications (handleNewsletterSubmission
      \<lparr>emailInput = Some [0x61, 0x40, 0x62], errorElement = Some ([], ''sr-only''),
       aria_invalid = False, focused = False, notifications = [], resets = 0\<rparr>)
     = [(''Please enter a valid email address.'', ''error'')]
   \<and> resets (handleNewsletterSubmission
      \<lparr>emailInput = Some [0x61, 0x40, 0x62], errorElement = Some ([], ''sr-only''),
       aria_invalid = False, focused = False, notifications = [], resets = 0\<rparr>) = 0
   \<and> notifications (handleNewsletterSubmission
      \<lparr>emailInput = Some [], errorElement = Some ([], ''sr-only''),
       aria_invalid = False, focused = False, notifications = [], resets = 0\<rparr>)
     = [(''Please enter an email address.'', ''error'')]"
proof -
  have yes: "[0x61, 0x40, 0x62, 0x2E, 0x63] \<in> lang emailRegex"
    using test_example_valid test_lang by blast
  have no: "[0x61, 0x40, 0x62] \<notin> lang emailRegex"
    using test_example_invalid test_lang by blast
  show ?thesis
    using newsletter_success_iff_valid_email
      [of "\<lparr>emailInput = Some [0x61, 0x40, 0x62, 0x2E, 0x63], errorElement = Some ([], ''sr-only''),
            aria_invalid = False, focused = False, notifications = [], resets = 0\<rparr>"]
      newsletter_success_iff_valid_email
      [of "\<lparr>emailInput = Some [0x61, 0x40, 0x62], errorElement = Some ([], ''sr-only''),
            aria_invalid = False, focused = False, notifications = [], resets = 0\<rparr>"]
      newsletter_success_iff_valid_email
      [of "\<lparr>emailInput = Some [], errorElement = Some ([], ''sr-only''),
            aria_invalid = False, focused = False, notifications = [], resets = 0\<rparr>"]
      yes no
    by simp
qed

end
